theory Spec2Isabelle
  imports
    Complex_Main
    "HOL-Library.Char_ord"
    "HOL-Library.List_Lexorder"
    "HOL-Library.Multiset"
    "HOL-Library.Product_Lexorder"
begin

section \<open>Strings\<close>

text \<open>
  A Python \<open>str\<close> is modelled as a \<open>string\<close>, one \<open>char\<close> per code point, so the
  model covers the code points below 256. \<open>isspace\<close> is \<open>str.isspace\<close> on that range
  (the characters \<open>str.strip()\<close> removes), \<open>lower\<close> is \<open>str.lower\<close> on that range.
\<close>

definition isspace :: "char \<Rightarrow> bool" where
  "isspace c = (of_char c \<in> {9, 10, 11, 12, 13, 28, 29, 30, 31, 32, 133, 160 :: nat})"

definition strip :: "string \<Rightarrow> string" where
  "strip s = rev (dropWhile isspace (rev (dropWhile isspace s)))"

definition lower_char :: "char \<Rightarrow> char" where
  "lower_char c =
     (let n = (of_char c :: nat)
      in if (65 \<le> n \<and> n \<le> 90) \<or> (192 \<le> n \<and> n \<le> 222 \<and> n \<noteq> 215)
         then char_of (n + 32) else c)"

definition lower :: "string \<Rightarrow> string" where
  "lower s = map lower_char s"

text \<open>
  \<open>str.casefold\<close> is only ever applied to the five canonical stage values, which are
  ASCII; there it agrees with \<open>str.lower\<close>.
\<close>

definition casefold :: "string \<Rightarrow> string" where
  "casefold s = lower s"

fun join :: "string \<Rightarrow> string list \<Rightarrow> string" where
  "join sep [] = []"
| "join sep [x] = x"
| "join sep (x # y # ys) = x @ sep @ join sep (y # ys)"

section \<open>models.py\<close>

datatype error =
    ValueError string
  | ValidationError "string list"
  | AttributeError
  | ZeroDivisionError
  | StorageError

datatype ThoughtStage = SCOPING | RESEARCH_SPIKE | IMPLEMENTATION | TESTING | REVIEW

text \<open>Iterating over the enum class yields its members in definition order.\<close>

definition all_stages :: "ThoughtStage list" where
  "all_stages = [SCOPING, RESEARCH_SPIKE, IMPLEMENTATION, TESTING, REVIEW]"

fun stage_value :: "ThoughtStage \<Rightarrow> string" where
  "stage_value SCOPING = ''Scoping''"
| "stage_value RESEARCH_SPIKE = ''Research & Spike''"
| "stage_value IMPLEMENTATION = ''Implementation''"
| "stage_value TESTING = ''Testing''"
| "stage_value REVIEW = ''Review''"

text \<open>The synonym table of \<open>from_string\<close>, in the order of the dict literal.\<close>

definition synonyms :: "(ThoughtStage \<times> string list) list" where
  "synonyms =
    [(SCOPING,
        [''scoping'', ''scope'', ''requirements'', ''planning (scope)'', ''project scoping'']),
     (RESEARCH_SPIKE,
        [''research & spike'', ''research'', ''spike'', ''spike/research'', ''investigate'', ''r&d'']),
     (IMPLEMENTATION,
        [''implementation'', ''implement'', ''build'', ''coding'', ''develop'', ''development'',
         ''plan'', ''planning'']),
     (TESTING,
        [''testing'', ''test'', ''qa'', ''validate'', ''verification'']),
     (REVIEW,
        [''review'', ''code review'', ''finalize'', ''ship'', ''pr review''])]"

definition invalid_stage_message :: "string \<Rightarrow> string" where
  "invalid_stage_message v =
     ''Invalid thinking stage: '' @ [CHR 0x27] @ v @ [CHR 0x27] @ ''. Valid stages are: ''
       @ join '', '' (map stage_value all_stages)"

definition from_string :: "string \<Rightarrow> error + ThoughtStage" where
  "from_string v =
     (if v = [] then Inr IMPLEMENTATION
      else
        let normalized = lower (strip v) in
        case find (\<lambda>s. casefold (stage_value s) = normalized) all_stages of
          Some s \<Rightarrow> Inr s
        | None \<Rightarrow>
            (case find (\<lambda>(s, names). normalized \<in> set names) synonyms of
               Some (s, names) \<Rightarrow> Inr s
             | None \<Rightarrow> Inl (ValueError (invalid_stage_message v))))"

datatype RiskLevel = LOW | MEDIUM | HIGH

fun risk_value :: "RiskLevel \<Rightarrow> string" where
  "risk_value LOW = ''low''"
| "risk_value MEDIUM = ''medium''"
| "risk_value HIGH = ''high''"

text \<open>\<open>RiskLevel(s)\<close>: the member whose value is \<open>s\<close>, a \<open>ValueError\<close> when there is none.\<close>

definition RiskLevel_of :: "string \<Rightarrow> error + RiskLevel" where
  "RiskLevel_of s =
     (case find (\<lambda>r. risk_value r = s) [LOW, MEDIUM, HIGH] of
        Some r \<Rightarrow> Inr r
      | None \<Rightarrow> Inl (ValueError (s @ '' is not a valid RiskLevel'')))"

text \<open>
  The fields of \<open>ThoughtData\<close>. The identifier (a UUID) is an opaque number, called \<open>uid\<close>
  here; \<open>confidence_score\<close>, a float in the source, is an exact real number.
\<close>

record ThoughtData =
  thought :: string
  thought_number :: int
  total_thoughts :: int
  next_thought_needed :: bool
  stage :: ThoughtStage
  tags :: "string list"
  axioms_used :: "string list"
  assumptions_challenged :: "string list"
  files_touched :: "string list"
  tests_to_run :: "string list"
  risk_level :: RiskLevel
  dependencies :: "string list"
  confidence_score :: real
  timestamp :: string
  uid :: nat

text \<open>
  The four field validators. Each returns the message of the \<open>ValueError\<close> it raises,
  or \<open>None\<close> when the value passes. \<open>total_thoughts_valid\<close> reads the already validated
  \<open>thought_number\<close>, which is absent (\<open>None\<close>) when that field failed its own validator.
\<close>

definition thought_not_empty :: "string \<Rightarrow> string option" where
  "thought_not_empty v =
     (if v = [] \<or> strip v = [] then Some ''Thought content cannot be empty'' else None)"

definition thought_number_positive :: "int \<Rightarrow> string option" where
  "thought_number_positive v =
     (if v < 1 then Some ''Thought number must be positive'' else None)"

definition total_thoughts_valid :: "int \<Rightarrow> int option \<Rightarrow> string option" where
  "total_thoughts_valid v validated_number =
     (case validated_number of
        Some n \<Rightarrow>
          (if v < n then Some ''Total thoughts must be greater or equal to current thought number''
           else None)
      | None \<Rightarrow> None)"

definition confidence_in_range :: "real \<Rightarrow> string option" where
  "confidence_in_range v =
     (if \<not> (0 \<le> v \<and> v \<le> 1) then Some ''Confidence score must be between 0.0 and 1.0''
      else None)"

text \<open>
  Construction \<open>ThoughtData(**kwargs)\<close>: the keyword arguments (defaults filled in) are
  given as a record of candidate values. The validators run in field order, every failure
  is collected, and a \<open>ValidationError\<close> is raised when there is one; otherwise the
  record is created with exactly the given values.
\<close>

definition ThoughtData_init :: "ThoughtData \<Rightarrow> error + ThoughtData" where
  "ThoughtData_init kw =
     (let e1 = thought_not_empty (thought kw);
          e2 = thought_number_positive (thought_number kw);
          e3 = total_thoughts_valid (total_thoughts kw)
                 (if e2 = None then Some (thought_number kw) else None);
          e4 = confidence_in_range (confidence_score kw);
          errors = List.map_filter (\<lambda>e. e) [e1, e2, e3, e4]
      in if errors = [] then Inr kw else Inl (ValidationError errors))"

section \<open>storage.py: project identifiers\<close>

definition allowed_char :: "char \<Rightarrow> bool" where
  "allowed_char c =
     (let n = (of_char c :: nat)
      in (97 \<le> n \<and> n \<le> 122) \<or> (65 \<le> n \<and> n \<le> 90) \<or> (48 \<le> n \<and> n \<le> 57)
         \<or> c = CHR ''.'' \<or> c = CHR ''_'' \<or> c = CHR ''-'')"

text \<open>\<open>re.sub(r"[^a-zA-Z0-9._-]", "_", s)\<close>\<close>

definition re_sub_unsafe :: "string \<Rightarrow> string" where
  "re_sub_unsafe s = map (\<lambda>c. if allowed_char c then c else CHR ''_'') s"

text \<open>The argument is \<open>None\<close> or a string.\<close>

definition sanitize_project_id :: "string option \<Rightarrow> string" where
  "sanitize_project_id project_id =
     (case project_id of
        None \<Rightarrow> ''default''
      | Some p \<Rightarrow>
          (if p = [] then ''default''
           else let cleaned = re_sub_unsafe (strip p)
                in if cleaned = [] then ''default'' else cleaned))"


section \<open>Floating-point numbers\<close>

text \<open>
  A Python \<open>float\<close> is a binary64 number. A finite one is a real number, and every
  operation of the source that yields one (the true division of two integers, the product
  with 100) returns the exact result rounded to the nearest binary64 number, ties to the
  even significand; results below the normal range are rounded to a multiple of
  \<open>2 ^ -1074\<close>. \<open>ilog2 x\<close> is the exponent \<open>e\<close> with \<open>2 ^ e \<le> x < 2 ^ (e + 1)\<close> for a
  positive \<open>x\<close>, computed from \<open>floor_log2\<close>, the number of halvings that take a
  positive integer to 1. The exponent is not bounded above: a quotient too large for a binary64
  number arises only from a sequence number far above the total, or from more records than
  a list can hold, and neither reaches the functions below.
\<close>

function floor_log2 :: "int \<Rightarrow> int" where
  "floor_log2 m = (if m \<le> 1 then 0 else floor_log2 (m div 2) + 1)"
  by pat_completeness auto
termination
  by (relation "measure nat") auto

declare floor_log2.simps [simp del]

definition ilog2 :: "real \<Rightarrow> int" where
  "ilog2 x =
     (if 1 \<le> x then floor_log2 \<lfloor>x\<rfloor>
      else - (floor_log2 (\<lceil>1 / x\<rceil> - 1) + 1))"

definition pow2 :: "int \<Rightarrow> real" where
  "pow2 e = (if 0 \<le> e then 2 ^ nat e else 1 / 2 ^ nat (- e))"

definition round_half_even :: "real \<Rightarrow> int" where
  "round_half_even y =
     (let f = \<lfloor>y\<rfloor>; d = y - of_int f
      in if d < 1/2 then f else if 1/2 < d then f + 1 else if even f then f else f + 1)"

definition to_double :: "real \<Rightarrow> real" where
  "to_double x =
     (if x = 0 then 0
      else
        let a = \<bar>x\<bar>;
            e = max (ilog2 a - 52) (- 1074);
            m = round_half_even (a / pow2 e)
        in sgn x * of_int m * pow2 e)"

text \<open>\<open>a / b\<close> for two integers (the divisor not zero), and \<open>x * 100\<close> for a float.\<close>

definition int_truediv :: "int \<Rightarrow> int \<Rightarrow> real" where
  "int_truediv a b = to_double (real_of_int a / real_of_int b)"

definition times_100 :: "real \<Rightarrow> real" where
  "times_100 x = to_double (x * 100)"

section \<open>analysis.py\<close>

text \<open>
  Both \<open>find_related_thoughts\<close> and \<open>analyze_thought\<close> first ask whether \<open>pytest\<close> is
  installed and, when it is, consult \<open>TestHelpers\<close> of the module \<open>testing\<close>, which is not
  part of the sources at hand. The two helpers are therefore parameters: \<open>None\<close> stands for
  an installation without \<open>pytest\<close>.
\<close>

record TestHelpers =
  find_related_thoughts_test :: "ThoughtData \<Rightarrow> ThoughtData list \<Rightarrow> ThoughtData list"
  set_first_in_stage_test :: "ThoughtData \<Rightarrow> bool"

text \<open>\<open>len(set(a) & set(b))\<close>\<close>

definition overlap :: "string list \<Rightarrow> string list \<Rightarrow> int" where
  "overlap a b = int (card (set a \<inter> set b))"

text \<open>The score a candidate collects in the body of the loop.\<close>

definition relatedness_score :: "ThoughtData \<Rightarrow> ThoughtData \<Rightarrow> int" where
  "relatedness_score current_thought t =
     (let score = 0;
          score = (if stage t = stage current_thought then score + 3 else score);
          score = score + overlap (tags current_thought) (tags t);
          score = score + overlap (files_touched current_thought) (files_touched t) * 2;
          score = score + overlap (dependencies current_thought) (dependencies t);
          score = (if risk_level t = risk_level current_thought then score + 1 else score)
      in score)"

text \<open>The loop over \<open>all_thoughts\<close>, with the list \<open>candidates\<close> as accumulator.\<close>

fun collect_candidates ::
  "ThoughtData \<Rightarrow> ThoughtData list \<Rightarrow> (int \<times> ThoughtData) list \<Rightarrow> (int \<times> ThoughtData) list" where
  "collect_candidates current_thought [] candidates = candidates"
| "collect_candidates current_thought (t # ts) candidates =
     (if uid t = uid current_thought then collect_candidates current_thought ts candidates
      else
        let score = relatedness_score current_thought t in
        if score > 0 then collect_candidates current_thought ts (candidates @ [(score, t)])
        else collect_candidates current_thought ts candidates)"

text \<open>
  \<open>list.sort(key=..., reverse=True)\<close> is stable: the list is reversed, sorted stably in
  ascending order of the key, and reversed again.
\<close>

definition sort_reverse :: "('a \<Rightarrow> 'k::linorder) \<Rightarrow> 'a list \<Rightarrow> 'a list" where
  "sort_reverse key xs = rev (sort_key key (rev xs))"

definition candidate_key :: "int \<times> ThoughtData \<Rightarrow> int \<times> int" where
  "candidate_key item = (fst item, thought_number (snd item))"

text \<open>
  \<open>find_related_thoughts\<close>. \<open>max_results\<close> is a count, 3 at every call of the
  repository, and a natural number here; \<open>candidates[:max_results]\<close> is then the list of
  the first \<open>max_results\<close> candidates.
\<close>

definition find_related_thoughts ::
  "TestHelpers option \<Rightarrow> ThoughtData \<Rightarrow> ThoughtData list \<Rightarrow> nat \<Rightarrow> ThoughtData list" where
  "find_related_thoughts pytest current_thought all_thoughts max_results =
     (let test_results =
            (case pytest of
               None \<Rightarrow> []
             | Some helpers \<Rightarrow> find_related_thoughts_test helpers current_thought all_thoughts)
      in if test_results \<noteq> [] then test_results
         else
           let candidates = collect_candidates current_thought all_thoughts [];
               candidates = sort_reverse candidate_key candidates
           in map snd (take max_results candidates))"

definition metadata_alerts :: "ThoughtData \<Rightarrow> string list" where
  "metadata_alerts t =
     (if stage t = IMPLEMENTATION \<and> files_touched t = []
      then [''Implementation thoughts should list filesTouched for traceability.''] else [])
     @ (if stage t \<in> {TESTING, REVIEW} \<and> tests_to_run t = []
        then [''Capture testsToRun to keep testing expectations explicit.''] else [])
     @ (if risk_level t = HIGH \<and> confidence_score t < 1/2
        then [''High-risk thought marked with low confidence; consider another research thought.'']
        else [])"

text \<open>The coverage dict has every stage as key from the start, so it is a total function.\<close>

definition stage_coverage :: "ThoughtData list \<Rightarrow> ThoughtStage \<Rightarrow> nat" where
  "stage_coverage thoughts =
     fold (\<lambda>t coverage. coverage(stage t := coverage (stage t) + 1)) thoughts (\<lambda>s. 0)"

definition dependency_summary :: "ThoughtData list \<Rightarrow> nat \<times> string list" where
  "dependency_summary thoughts =
     (let unique_dependencies = sorted_list_of_set (set (concat (map dependencies thoughts)))
      in (length unique_dependencies, unique_dependencies))"

definition has_testing_after_implementation :: "ThoughtData list \<Rightarrow> bool" where
  "has_testing_after_implementation thoughts =
     (let implementation_numbers =
            map thought_number (filter (\<lambda>t. stage t = IMPLEMENTATION) thoughts)
      in if implementation_numbers = [] then False
         else
           let last_impl = Max (set implementation_numbers)
           in list_ex (\<lambda>t. stage t = TESTING \<and> thought_number t \<ge> last_impl) thoughts)"

definition high_risk_without_tests :: "ThoughtData list \<Rightarrow> nat" where
  "high_risk_without_tests thoughts =
     length (filter (\<lambda>t. risk_level t = HIGH \<and> tests_to_run t = []) thoughts)"

text \<open>\<open>t.thought[:100] + "..." if len(t.thought) > 100 else t.thought\<close>\<close>

definition snippet :: "string \<Rightarrow> string" where
  "snippet s = (if length s > 100 then take 100 s @ ''...'' else s)"

text \<open>The result of \<open>analyze_thought\<close>, the nested dict flattened into one record.\<close>

record Analysis =
  currentThought_thoughtNumber :: int
  currentThought_totalThoughts :: int
  currentThought_nextThoughtNeeded :: bool
  currentThought_stage :: string
  currentThought_tags :: "string list"
  currentThought_timestamp :: string
  relatedThoughtsCount :: nat
  relatedThoughtSummaries :: "(int \<times> string \<times> string) list"
  progress :: real
  isFirstInStage :: bool
  confidenceScore :: real
  metadataAlerts :: "string list"
  stageCoverage :: "ThoughtStage \<Rightarrow> nat"
  pendingStages :: "string list"
  thoughtHistoryLength :: nat
  currentStage :: string
  projectDependencies :: "nat \<times> string list"
  testingReady :: bool
  highRiskPendingTests :: nat
  recommendedNextThoughtNeeded :: bool
  reason :: string

text \<open>
  The guidance heuristic. Its comparisons are on integers and a number, none of them
  raises, so the \<open>except\<close> branch of the source is never taken.
\<close>

definition guidance :: "ThoughtData \<Rightarrow> string list \<Rightarrow> real \<Rightarrow> bool \<times> string" where
  "guidance t pending_stages progress_value =
     (if thought_number t \<ge> total_thoughts t then (False, ''Reached total planned thoughts.'')
      else if stage t = REVIEW then (False, ''Review stage complete.'')
      else if length pending_stages = 0 \<and> progress_value \<ge> 80
        then (False, ''Core stages covered; diminishing returns.'')
      else (True, ''Continue to next step.''))"

text \<open>
  \<open>analyze_thought\<close>. The progress is a true division of two integers, which raises
  \<open>ZeroDivisionError\<close> for a total of zero, times 100, both in floating point.
\<close>

definition analyze_thought ::
  "TestHelpers option \<Rightarrow> ThoughtData \<Rightarrow> ThoughtData list \<Rightarrow> error + Analysis" where
  "analyze_thought pytest t all_thoughts =
     (let (is_first_in_stage, related_thoughts) =
            (if (case pytest of None \<Rightarrow> False | Some helpers \<Rightarrow> set_first_in_stage_test helpers t)
             then (True,
                   (case find (\<lambda>r. stage r = stage t \<and> thought r \<noteq> thought t) all_thoughts of
                      None \<Rightarrow> []
                    | Some r \<Rightarrow> [r]))
             else
               let related = find_related_thoughts pytest t all_thoughts 3;
                   same_stage_thoughts = filter (\<lambda>r. stage r = stage t) all_thoughts
               in (length same_stage_thoughts \<le> 1, related))
      in if total_thoughts t = 0 then Inl ZeroDivisionError
         else
           let progress_value = times_100 (int_truediv (thought_number t) (total_thoughts t));
               coverage = stage_coverage all_thoughts;
               pending_stages = map stage_value (filter (\<lambda>s. coverage s = 0) all_stages);
               alerts = metadata_alerts t;
               dependency_info = dependency_summary all_thoughts;
               testing_ready = has_testing_after_implementation all_thoughts;
               (recommended_next, guidance_reason) = guidance t pending_stages progress_value
           in Inr \<lparr>currentThought_thoughtNumber = thought_number t,
                   currentThought_totalThoughts = total_thoughts t,
                   currentThought_nextThoughtNeeded = next_thought_needed t,
                   currentThought_stage = stage_value (stage t),
                   currentThought_tags = tags t,
                   currentThought_timestamp = timestamp t,
                   relatedThoughtsCount = length related_thoughts,
                   relatedThoughtSummaries =
                     map (\<lambda>r. (thought_number r, stage_value (stage r), snippet (thought r)))
                       related_thoughts,
                   progress = progress_value,
                   isFirstInStage = is_first_in_stage,
                   confidenceScore = confidence_score t,
                   metadataAlerts = alerts,
                   stageCoverage = coverage,
                   pendingStages = pending_stages,
                   thoughtHistoryLength = length all_thoughts,
                   currentStage = stage_value (stage t),
                   projectDependencies = dependency_info,
                   testingReady = testing_ready,
                   highRiskPendingTests = high_risk_without_tests all_thoughts,
                   recommendedNextThoughtNeeded = recommended_next,
                   reason = guidance_reason\<rparr>)"

section \<open>analysis.py: the summary\<close>

text \<open>
  Python dicts keep insertion order; they are association lists with one pair per key.
  \<open>dict_get\<close> is \<open>d.get(k, default)\<close>.
\<close>

definition dict_get :: "('k \<times> 'v) list \<Rightarrow> 'k \<Rightarrow> 'v \<Rightarrow> 'v" where
  "dict_get d k dflt = (case map_of d k of None \<Rightarrow> dflt | Some v \<Rightarrow> v)"

text \<open>
  \<open>d.setdefault(k, []).append(v)\<close>, and likewise
  \<open>if k not in d: d[k] = []\<close> followed by \<open>d[k].append(v)\<close>.
\<close>

fun setdefault_append :: "'k \<Rightarrow> 'v \<Rightarrow> ('k \<times> 'v list) list \<Rightarrow> ('k \<times> 'v list) list" where
  "setdefault_append k v [] = [(k, [v])]"
| "setdefault_append k v ((k', vs) # d) =
     (if k' = k then (k', vs @ [v]) # d else (k', vs) # setdefault_append k v d)"

text \<open>\<open>collections.Counter\<close>: one count per element, keys in order of first occurrence.\<close>

fun counter_add :: "'k \<Rightarrow> ('k \<times> nat) list \<Rightarrow> ('k \<times> nat) list" where
  "counter_add k [] = [(k, 1)]"
| "counter_add k ((k', n) # d) =
     (if k' = k then (k', n + 1) # d else (k', n) # counter_add k d)"

definition Counter :: "'k list \<Rightarrow> ('k \<times> nat) list" where
  "Counter xs = fold counter_add xs []"

text \<open>\<open>most_common(n)\<close> is \<open>sorted(items, key=count, reverse=True)[:n]\<close>.\<close>

definition most_common :: "nat \<Rightarrow> ('k \<times> nat) list \<Rightarrow> ('k \<times> nat) list" where
  "most_common n counts = take n (sort_reverse snd counts)"

definition risk_profile :: "ThoughtData list \<Rightarrow> (string \<times> nat) list" where
  "risk_profile thoughts =
     (let risk_counts = Counter (map (\<lambda>t. risk_value (risk_level t)) thoughts)
      in [(''high'', dict_get risk_counts (risk_value HIGH) 0),
          (''medium'', dict_get risk_counts (risk_value MEDIUM) 0),
          (''low'', dict_get risk_counts (risk_value LOW) 0)])"

definition dependency_map :: "ThoughtData list \<Rightarrow> (string \<times> int list) list" where
  "dependency_map thoughts =
     fold (\<lambda>t d. fold (\<lambda>dependency d'. setdefault_append dependency (thought_number t) d')
                    (dependencies t) d)
       thoughts []"

record Summary =
  totalThoughts :: nat
  stages :: "(string \<times> nat) list"
  timeline :: "(int \<times> string) list"
  topTags :: "(string \<times> nat) list"
  hasAllStages :: bool
  percentComplete :: real
  filesTouched :: "string list"
  riskProfile :: "(string \<times> nat) list"
  dependencyMap :: "(string \<times> int list) list"

text \<open>
  The three shapes of the value under the key \<open>summary\<close>: the placeholder text, the
  aggregate, and the degraded form of the \<open>except\<close> branch (total count and error text).
\<close>

datatype SummaryResult =
    SummaryText string
  | SummaryData Summary
  | SummaryError nat string

text \<open>
  \<open>generate_summary\<close>. No operation of the \<open>try\<close> block raises on a non-empty list of
  records (the only division by a variable is guarded, the other divides by the length),
  so the \<open>except\<close> branch is not taken. The entry \<open>confidenceAverage\<close>, a sum of
  floats whose rounding depends on the summation of the interpreter, is left out of the
  record.
\<close>

definition generate_summary :: "ThoughtData list \<Rightarrow> SummaryResult" where
  "generate_summary thoughts =
     (if thoughts = [] then SummaryText ''No thoughts recorded yet''
      else
        let grouped = fold (\<lambda>t d. setdefault_append (stage_value (stage t)) t d) thoughts [];
            all_tags = concat (map tags thoughts);
            tag_counts = Counter all_tags;
            top_tags = most_common 5 tag_counts;
            max_total = Max (set (map total_thoughts thoughts));
            percent_complete =
              (if max_total > 0
               then times_100 (int_truediv (int (length thoughts)) max_total) else 0);
            stage_counts = map (\<lambda>(s, thoughts_list). (s, length thoughts_list)) grouped;
            stage_counts_with_missing =
              map (\<lambda>s. (stage_value s, dict_get stage_counts (stage_value s) 0)) all_stages;
            sorted_thoughts = sort_key thought_number thoughts;
            timeline_entries = map (\<lambda>t. (thought_number t, stage_value (stage t))) sorted_thoughts;
            all_stages_present =
              list_all (\<lambda>s. dict_get stage_counts_with_missing (stage_value s) 0 > 0) all_stages;
            files = sorted_list_of_set (set (concat (map files_touched thoughts)))
        in SummaryData
             \<lparr>totalThoughts = length thoughts,
              stages = stage_counts_with_missing,
              timeline = timeline_entries,
              topTags = top_tags,
              hasAllStages = all_stages_present,
              percentComplete = percent_complete,
              filesTouched = files,
              riskProfile = risk_profile thoughts,
              dependencyMap = dependency_map thoughts\<rparr>)"

section \<open>models.py: dictionaries\<close>

text \<open>
  The values a record is serialised to. \<open>JFloat\<close> carries an exact number.
  A dict is an association list in insertion order.
\<close>

datatype json =
    JNull
  | JBool bool
  | JInt int
  | JFloat real
  | JStr string
  | JList "json list"
  | JDict "(string \<times> json) list"

type_synonym pydict = "(string \<times> json) list"

text \<open>
  What the program takes from its environment: the text of a UUID (\<open>str(u)\<close>), the parser
  \<open>UUID(s)\<close> (\<open>None\<close> when it raises \<open>ValueError\<close>), the identifiers \<open>uuid4()\<close> hands out,
  indexed by the position of the record being built, and the current time as ISO text.
\<close>

record env =
  str_of_uuid :: "nat \<Rightarrow> string"
  uuid_of_str :: "string \<Rightarrow> nat option"
  uuid4 :: "nat \<Rightarrow> nat"
  now :: string

text \<open>\<open>d[k] = v\<close>: an existing key keeps its position, a new key goes to the end.\<close>

fun dict_set :: "'k \<Rightarrow> 'v \<Rightarrow> ('k \<times> 'v) list \<Rightarrow> ('k \<times> 'v) list" where
  "dict_set k v [] = [(k, v)]"
| "dict_set k v ((k', v') # d) = (if k' = k then (k', v) # d else (k', v') # dict_set k v d)"

definition dict_pop :: "'k \<Rightarrow> ('k \<times> 'v) list \<Rightarrow> ('k \<times> 'v) list" where
  "dict_pop k d = filter (\<lambda>(k', v). k' \<noteq> k) d"

fun split_on :: "char \<Rightarrow> string \<Rightarrow> string list" where
  "split_on sep [] = [[]]"
| "split_on sep (c # cs) =
     (if c = sep then [] # split_on sep cs
      else (case split_on sep cs of [] \<Rightarrow> [[c]] | w # ws \<Rightarrow> (c # w) # ws))"

definition upper_char :: "char \<Rightarrow> char" where
  "upper_char c =
     (let n = (of_char c :: nat)
      in if (97 \<le> n \<and> n \<le> 122) \<or> (224 \<le> n \<and> n \<le> 254 \<and> n \<noteq> 247)
         then char_of (n - 32) else c)"

text \<open>\<open>str.title()\<close> on a single word of letters, as the parts of a field name are.\<close>

definition title :: "string \<Rightarrow> string" where
  "title w = (case w of [] \<Rightarrow> [] | c # cs \<Rightarrow> upper_char c # lower cs)"

definition to_camel_case :: "string \<Rightarrow> string" where
  "to_camel_case v =
     (case split_on (CHR ''_'') v of
        [] \<Rightarrow> v
      | c # cs \<Rightarrow> c @ concat (map title cs))"

definition strs :: "string list \<Rightarrow> json" where
  "strs xs = JList (map JStr xs)"

text \<open>
  \<open>to_dict\<close>. \<open>data\<close> is \<open>model_dump()\<close> after the two special conversions (stage and
  risk level replaced by their values) and with the identifier already as text.
\<close>

definition to_dict :: "env \<Rightarrow> bool \<Rightarrow> ThoughtData \<Rightarrow> pydict" where
  "to_dict e include_id t =
     (let data =
            [(''thought'', JStr (thought t)),
             (''thought_number'', JInt (thought_number t)),
             (''total_thoughts'', JInt (total_thoughts t)),
             (''next_thought_needed'', JBool (next_thought_needed t)),
             (''stage'', JStr (stage_value (stage t))),
             (''tags'', strs (tags t)),
             (''axioms_used'', strs (axioms_used t)),
             (''assumptions_challenged'', strs (assumptions_challenged t)),
             (''files_touched'', strs (files_touched t)),
             (''tests_to_run'', strs (tests_to_run t)),
             (''risk_level'', JStr (risk_value (risk_level t))),
             (''dependencies'', strs (dependencies t)),
             (''confidence_score'', JFloat (confidence_score t)),
             (''timestamp'', JStr (timestamp t)),
             (''id'', JStr (str_of_uuid e (uid t)))];
          data = (if \<not> include_id then dict_pop ''id'' data else data);
          result =
            fold (\<lambda>(key, v) result.
                    if key = ''stage'' then result else dict_set (to_camel_case key) v result)
              data [];
          result = dict_set ''thought'' (JStr (thought t)) result;
          result = dict_set ''thoughtNumber'' (JInt (thought_number t)) result;
          result = dict_set ''totalThoughts'' (JInt (total_thoughts t)) result;
          result = dict_set ''nextThoughtNeeded'' (JBool (next_thought_needed t)) result;
          result = dict_set ''stage'' (JStr (stage_value (stage t))) result;
          result = dict_set ''tags'' (strs (tags t)) result;
          result = dict_set ''axiomsUsed'' (strs (axioms_used t)) result;
          result = dict_set ''assumptionsChallenged'' (strs (assumptions_challenged t)) result;
          result = dict_set ''filesTouched'' (strs (files_touched t)) result;
          result = dict_set ''testsToRun'' (strs (tests_to_run t)) result;
          result = dict_set ''riskLevel'' (JStr (risk_value (risk_level t))) result;
          result = dict_set ''dependencies'' (strs (dependencies t)) result;
          result = dict_set ''confidenceScore'' (JFloat (confidence_score t)) result;
          result = dict_set ''timestamp'' (JStr (timestamp t)) result
      in result)"

text \<open>
  Reading a dict back. The typed readers stand for the type validation of the model
  fields: a string, an integer, a boolean, a number (an integer is accepted as a float) and
  a list of strings; the coercions of the lax mode (numeric strings and the like) are not
  modelled, a value of another type is invalid.
\<close>

fun as_str :: "json \<Rightarrow> string option" where
  "as_str (JStr s) = Some s"
| "as_str _ = None"

fun as_int :: "json \<Rightarrow> int option" where
  "as_int (JInt i) = Some i"
| "as_int _ = None"

fun as_bool :: "json \<Rightarrow> bool option" where
  "as_bool (JBool b) = Some b"
| "as_bool _ = None"

fun as_float :: "json \<Rightarrow> real option" where
  "as_float (JFloat r) = Some r"
| "as_float (JInt i) = Some (real_of_int i)"
| "as_float _ = None"

fun str_items :: "json list \<Rightarrow> string list option" where
  "str_items [] = Some []"
| "str_items (JStr s # js) = map_option (\<lambda>ss. s # ss) (str_items js)"
| "str_items (_ # js) = None"

fun as_strs :: "json \<Rightarrow> string list option" where
  "as_strs (JList js) = str_items js"
| "as_strs _ = None"

text \<open>Truth value of a value, as \<open>not value\<close> tests it.\<close>

fun truthy :: "json \<Rightarrow> bool" where
  "truthy JNull = False"
| "truthy (JBool b) = b"
| "truthy (JInt i) = (i \<noteq> 0)"
| "truthy (JFloat r) = (r \<noteq> 0)"
| "truthy (JStr s) = (s \<noteq> [])"
| "truthy (JList js) = (js \<noteq> [])"
| "truthy (JDict d) = (d \<noteq> [])"

text \<open>
  A field of the model read from the dict: the key may be missing (then the default
  applies, or the field is reported as required) or hold a value of the wrong type.
  The result is the value or the message for the validation error.
\<close>

definition field :: "pydict \<Rightarrow> string \<Rightarrow> (json \<Rightarrow> 'a option) \<Rightarrow> 'a option \<Rightarrow> string list + 'a" where
  "field data key reader dflt =
     (case map_of data key of
        None \<Rightarrow> (case dflt of None \<Rightarrow> Inl [key @ '': Field required''] | Some d \<Rightarrow> Inr d)
      | Some j \<Rightarrow> (case reader j of None \<Rightarrow> Inl [key @ '': Input is not valid''] | Some v \<Rightarrow> Inr v))"

text \<open>Two fields together: both values, or all the messages.\<close>

fun both :: "string list + 'a \<Rightarrow> string list + 'b \<Rightarrow> string list + 'a \<times> 'b" where
  "both (Inr a) (Inr b) = Inr (a, b)"
| "both (Inl e) (Inr b) = Inl e"
| "both (Inr a) (Inl f) = Inl f"
| "both (Inl e) (Inl f) = Inl (e @ f)"

text \<open>
  \<open>from_dict\<close>, for the record at position \<open>i\<close> of what is being loaded. In the order of
  the source: the stage is parsed (\<open>from_string\<close> returns the default stage for a value
  that is not truthy and fails on the attribute \<open>strip\<close> for a truthy value that is not a
  string); a risk level given as a string is parsed; an identifier is parsed, and replaced
  by a new one when it is \<open>None\<close> or not the text of a UUID (any other value fails on the
  attribute \<open>replace\<close>); then the record is constructed. When a field is missing or
  ill-typed the validation error lists those fields only.
\<close>

definition from_dict :: "env \<Rightarrow> nat \<Rightarrow> pydict \<Rightarrow> error + ThoughtData" where
  "from_dict e i data =
     (case (case map_of data ''stage'' of
              None \<Rightarrow> Inr (Inl [''stage: Field required''])
            | Some j \<Rightarrow>
                (if \<not> truthy j then Inr (Inr IMPLEMENTATION)
                 else case j of
                        JStr s \<Rightarrow> (case from_string s of Inl err \<Rightarrow> Inl err | Inr st \<Rightarrow> Inr (Inr st))
                      | _ \<Rightarrow> Inl AttributeError)) of
        Inl err \<Rightarrow> Inl err
      | Inr stage_field \<Rightarrow>
     (case (case map_of data ''riskLevel'' of
              None \<Rightarrow> Inr (Inr MEDIUM)
            | Some (JStr s) \<Rightarrow>
                (case RiskLevel_of (lower s) of Inl err \<Rightarrow> Inl err | Inr r \<Rightarrow> Inr (Inr r))
            | Some _ \<Rightarrow> Inr (Inl [''risk_level: Input is not valid''])) of
        Inl err \<Rightarrow> Inl err
      | Inr risk_field \<Rightarrow>
     (case (case map_of data ''id'' of
              None \<Rightarrow> Inr (uuid4 e i)
            | Some (JStr s) \<Rightarrow>
                Inr (case uuid_of_str e s of Some u \<Rightarrow> u | None \<Rightarrow> uuid4 e i)
            | Some JNull \<Rightarrow> Inr (uuid4 e i)
            | Some _ \<Rightarrow> Inl AttributeError) of
        Inl err \<Rightarrow> Inl err
      | Inr ident \<Rightarrow>
     (case both (field data ''thought'' as_str None)
          (both (field data ''thoughtNumber'' as_int None)
          (both (field data ''totalThoughts'' as_int None)
          (both (field data ''nextThoughtNeeded'' as_bool None)
          (both stage_field
          (both (field data ''tags'' as_strs (Some []))
          (both (field data ''axiomsUsed'' as_strs (Some []))
          (both (field data ''assumptionsChallenged'' as_strs (Some []))
          (both (field data ''filesTouched'' as_strs (Some []))
          (both (field data ''testsToRun'' as_strs (Some []))
          (both risk_field
          (both (field data ''dependencies'' as_strs (Some []))
          (both (field data ''confidenceScore'' as_float (Some (1/2)))
                (field data ''timestamp'' as_str (Some (now e))))))))))))))) of
        Inl messages \<Rightarrow> Inl (ValidationError messages)
      | Inr (th, num, tot, nxt, st, tgs, axs, asms, fls, tsts, rsk, deps, conf, ts) \<Rightarrow>
          ThoughtData_init
            \<lparr>thought = th, thought_number = num, total_thoughts = tot,
             next_thought_needed = nxt, stage = st, tags = tgs, axioms_used = axs,
             assumptions_challenged = asms, files_touched = fls, tests_to_run = tsts,
             risk_level = rsk, dependencies = deps, confidence_score = conf,
             timestamp = ts, uid = ident\<rparr>))))"

section \<open>storage.py: the project store\<close>

text \<open>
  What a path of the file system holds: something that is not a session, or a list of
  serialised records, for an export wrapped with metadata.
\<close>

datatype file_content =
    Malformed
  | SessionFile "pydict list" "pydict option"

text \<open>
  Modelled from the spec: \<open>prepare_thoughts_for_serialization\<close> of the module
  \<open>storage_utils\<close>, which is not among the sources. The persisted form of a record carries
  all its attributes plus its identifier as text.
\<close>

definition prepare_thoughts_for_serialization :: "env \<Rightarrow> ThoughtData list \<Rightarrow> pydict list" where
  "prepare_thoughts_for_serialization e thoughts = map (to_dict e True) thoughts"

text \<open>
  Modelled from the spec: \<open>save_thoughts_to_file\<close> of the module \<open>storage_utils\<close>, which is
  not among the sources. The file is replaced as a whole by the list of records, wrapped
  with the metadata when there is one. The companion lock file is left out: the lock is
  taken to be free.
\<close>

definition save_thoughts_to_file ::
  "(string \<rightharpoonup> file_content) \<Rightarrow> string \<Rightarrow> pydict list \<Rightarrow> pydict option
     \<Rightarrow> (string \<rightharpoonup> file_content)" where
  "save_thoughts_to_file fs path thoughts metadata = fs(path \<mapsto> SessionFile thoughts metadata)"

text \<open>The records of a file are built one by one, in order, with \<open>from_dict\<close>.\<close>

fun from_dicts :: "env \<Rightarrow> nat \<Rightarrow> pydict list \<Rightarrow> error + ThoughtData list" where
  "from_dicts e i [] = Inr []"
| "from_dicts e i (d # ds) =
     (case from_dict e i d of
        Inl err \<Rightarrow> Inl err
      | Inr t \<Rightarrow>
          (case from_dicts e (Suc i) ds of
             Inl err \<Rightarrow> Inl err
           | Inr ts \<Rightarrow> Inr (t # ts)))"

text \<open>
  Modelled from the spec: \<open>load_thoughts_from_file\<close> of the module \<open>storage_utils\<close>, which is
  not among the sources. A missing file gives the empty sequence; a malformed file, or a
  record that cannot be built, is a \<open>StorageError\<close>; export metadata is ignored.
\<close>

definition load_thoughts_from_file ::
  "env \<Rightarrow> (string \<rightharpoonup> file_content) \<Rightarrow> string \<Rightarrow> error + ThoughtData list" where
  "load_thoughts_from_file e fs path =
     (case fs path of
        None \<Rightarrow> Inr []
      | Some Malformed \<Rightarrow> Inl StorageError
      | Some (SessionFile thoughts metadata) \<Rightarrow>
          (case from_dicts e 0 thoughts of
             Inl err \<Rightarrow> Inl StorageError
           | Inr ts \<Rightarrow> Inr ts))"

text \<open>
  The state of a \<open>ThoughtStorage\<close>, together with the files it reads and writes. The
  attribute \<open>thought_history\<close> is the history of the default project.
\<close>

record ThoughtStorage =
  storage_dir :: string
  default_project_id :: string
  project_histories :: "string \<rightharpoonup> ThoughtData list"
  thought_history :: "ThoughtData list"
  files :: "string \<rightharpoonup> file_content"

definition session_file_for :: "ThoughtStorage \<Rightarrow> string \<Rightarrow> string" where
  "session_file_for st project_id = storage_dir st @ ''/'' @ project_id @ ''_session.json''"

definition ensure_history ::
  "env \<Rightarrow> ThoughtStorage \<Rightarrow> string \<Rightarrow> error + ThoughtStorage \<times> ThoughtData list" where
  "ensure_history e st project_id =
     (let finish = (\<lambda>st' history.
            (if project_id = default_project_id st' then st'\<lparr>thought_history := history\<rparr> else st',
             history))
      in case project_histories st project_id of
           Some history \<Rightarrow> Inr (finish st history)
         | None \<Rightarrow>
             (case load_thoughts_from_file e (files st) (session_file_for st project_id) of
                Inl err \<Rightarrow> Inl err
              | Inr history \<Rightarrow>
                  Inr (finish
                        (st\<lparr>project_histories := (project_histories st)(project_id \<mapsto> history)\<rparr>)
                        history)))"

text \<open>\<open>project_id or self.default_project_id\<close>, sanitised.\<close>

definition resolve_project_id :: "ThoughtStorage \<Rightarrow> string option \<Rightarrow> string" where
  "resolve_project_id st project_id =
     sanitize_project_id
       (Some (case project_id of
                None \<Rightarrow> default_project_id st
              | Some p \<Rightarrow> if p = [] then default_project_id st else p))"

definition save_session :: "env \<Rightarrow> ThoughtStorage \<Rightarrow> string \<Rightarrow> ThoughtStorage" where
  "save_session e st project_id =
     (let history = (case project_histories st project_id of None \<Rightarrow> [] | Some h \<Rightarrow> h);
          thoughts_with_ids = prepare_thoughts_for_serialization e history
      in st\<lparr>files := save_thoughts_to_file (files st) (session_file_for st project_id)
                        thoughts_with_ids None\<rparr>)"

definition add_thought ::
  "env \<Rightarrow> ThoughtStorage \<Rightarrow> ThoughtData \<Rightarrow> string option \<Rightarrow> error + ThoughtStorage" where
  "add_thought e st t project_id =
     (let pid = resolve_project_id st project_id
      in case ensure_history e st pid of
           Inl err \<Rightarrow> Inl err
         | Inr (st1, history) \<Rightarrow>
             (let history = history @ [t];
                  st2 = st1\<lparr>project_histories := (project_histories st1)(pid \<mapsto> history)\<rparr>;
                  st3 = (if pid = default_project_id st2 then st2\<lparr>thought_history := history\<rparr>
                         else st2)
              in Inr (save_session e st3 pid)))"

definition get_all_thoughts ::
  "env \<Rightarrow> ThoughtStorage \<Rightarrow> string option \<Rightarrow> error + ThoughtStorage \<times> ThoughtData list" where
  "get_all_thoughts e st project_id =
     (let pid = resolve_project_id st project_id in ensure_history e st pid)"

definition export_session ::
  "env \<Rightarrow> ThoughtStorage \<Rightarrow> string \<Rightarrow> string option \<Rightarrow> error + ThoughtStorage" where
  "export_session e st file_path project_id =
     (let pid = resolve_project_id st project_id
      in case ensure_history e st pid of
           Inl err \<Rightarrow> Inl err
         | Inr (st1, history) \<Rightarrow>
             (let thoughts_with_ids = prepare_thoughts_for_serialization e history;
                  metadata =
                    [(''exportedAt'', JStr (now e)),
                     (''metadata'',
                        JDict [(''project'', JStr pid),
                               (''totalThoughts'', JInt (int (length history))),
                               (''stages'',
                                  JDict (map (\<lambda>s. (stage_value s,
                                                     JInt (int (length (filter (\<lambda>t. stage t = s) history)))))
                                           all_stages))])]
              in Inr (st1\<lparr>files := save_thoughts_to_file (files st1) file_path thoughts_with_ids
                                       (Some metadata)\<rparr>)))"

definition import_session ::
  "env \<Rightarrow> ThoughtStorage \<Rightarrow> string \<Rightarrow> string option \<Rightarrow> error + ThoughtStorage" where
  "import_session e st file_path project_id =
     (case load_thoughts_from_file e (files st) file_path of
        Inl err \<Rightarrow> Inl err
      | Inr thoughts \<Rightarrow>
          (let pid = resolve_project_id st project_id;
               st1 = st\<lparr>project_histories := (project_histories st)(pid \<mapsto> thoughts)\<rparr>;
               st2 = (if pid = default_project_id st1 then st1\<lparr>thought_history := thoughts\<rparr>
                      else st1)
           in Inr (save_session e st2 pid)))"

section \<open>Notions of the specification\<close>

text \<open>
  The record invariants as the specification lists them: body non-empty after trimming,
  sequence number at least 1, total at least the sequence number, confidence in [0,1].
\<close>

definition record_invariants :: "ThoughtData \<Rightarrow> bool" where
  "record_invariants kw \<longleftrightarrow>
     strip (thought kw) \<noteq> [] \<and> 1 \<le> thought_number kw
     \<and> thought_number kw \<le> total_thoughts kw
     \<and> 0 \<le> confidence_score kw \<and> confidence_score kw \<le> 1"

text \<open>
  An input is resolvable when, trimmed and lowercased, it is a canonical stage value
  (compared case-insensitively) or one of the documented aliases.
\<close>

definition canonical_names :: "string list" where
  "canonical_names = map (\<lambda>s. lower (stage_value s)) all_stages"

definition alias_names :: "string list" where
  "alias_names = concat (map snd synonyms)"

definition resolvable :: "string \<Rightarrow> bool" where
  "resolvable v = (lower (strip v) \<in> set canonical_names \<union> set alias_names)"

text \<open>A record used as concrete input below.\<close>

definition example_thought :: ThoughtData where
  "example_thought =
     \<lparr>thought = ''Test thought'', thought_number = 1, total_thoughts = 3,
      next_thought_needed = True, stage = SCOPING, tags = [], axioms_used = [],
      assumptions_challenged = [], files_touched = [], tests_to_run = [],
      risk_level = MEDIUM, dependencies = [], confidence_score = 1/2,
      timestamp = ''2023-01-01T12:00:00'', uid = 1\<rparr>"

section \<open>Notions of the specification: analysis\<close>

text \<open>The guidance, the first-in-stage flag and the testing-ready insight of an analysis.\<close>

definition guidance_of :: "error + Analysis \<Rightarrow> error + bool \<times> string" where
  "guidance_of r = map_sum (\<lambda>e. e) (\<lambda>a. (recommendedNextThoughtNeeded a, reason a)) r"

definition first_in_stage_of :: "error + Analysis \<Rightarrow> error + bool" where
  "first_in_stage_of r = map_sum (\<lambda>e. e) isFirstInStage r"

definition testing_ready_of :: "error + Analysis \<Rightarrow> error + bool" where
  "testing_ready_of r = map_sum (\<lambda>e. e) testingReady r"

text \<open>
  The number of records of a stage, and the progress of a thought in percent: sequence
  number by total, times 100, as floating-point numbers.
\<close>

definition records_in_stage :: "ThoughtStage \<Rightarrow> ThoughtData list \<Rightarrow> nat" where
  "records_in_stage s records = length (filter (\<lambda>r. stage r = s) records)"

definition progress_percent :: "ThoughtData \<Rightarrow> real" where
  "progress_percent t = times_100 (int_truediv (thought_number t) (total_thoughts t))"

text \<open>
  The guidance rule in the words of the specification: four conditions in order, the first
  that matches wins.
\<close>

definition guidance_spec :: "ThoughtData \<Rightarrow> ThoughtData list \<Rightarrow> bool \<times> string" where
  "guidance_spec t records =
     (if thought_number t \<ge> total_thoughts t then (False, ''Reached total planned thoughts.'')
      else if stage t = REVIEW then (False, ''Review stage complete.'')
      else if \<not> list_ex (\<lambda>s. records_in_stage s records = 0) all_stages
              \<and> progress_percent t \<ge> 80
        then (False, ''Core stages covered; diminishing returns.'')
      else (True, ''Continue to next step.''))"

text \<open>Whether the test helper, when there is one, claims the thought as its own test case.\<close>

definition claimed_by_test_helper :: "TestHelpers option \<Rightarrow> ThoughtData \<Rightarrow> bool" where
  "claimed_by_test_helper pytest t =
     (case pytest of None \<Rightarrow> False | Some helpers \<Rightarrow> set_first_in_stage_test helpers t)"

text \<open>Concrete inputs: a final Review thought, and a short history.\<close>

definition review_5_of_5 :: ThoughtData where
  "review_5_of_5 = example_thought\<lparr>thought_number := 5, total_thoughts := 5, stage := REVIEW\<rparr>"

definition thought_2_of_5 :: ThoughtData where
  "thought_2_of_5 =
     example_thought\<lparr>thought_number := 2, total_thoughts := 5, stage := TESTING, uid := 2\<rparr>"

definition example_history :: "ThoughtData list" where
  "example_history = [example_thought, thought_2_of_5]"

text \<open>A history that covers all five stages, and its fourth thought.\<close>

definition thought_4_of_5 :: ThoughtData where
  "thought_4_of_5 =
     example_thought\<lparr>thought_number := 4, total_thoughts := 5, stage := IMPLEMENTATION, uid := 4\<rparr>"

definition full_history :: "ThoughtData list" where
  "full_history =
     [example_thought\<lparr>total_thoughts := 5\<rparr>,
      thought_2_of_5,
      example_thought\<lparr>thought_number := 3, total_thoughts := 5, stage := RESEARCH_SPIKE, uid := 3\<rparr>,
      thought_4_of_5,
      review_5_of_5\<lparr>uid := 5\<rparr>]"

section \<open>The inputs of the test suite\<close>

text \<open>
  The four thoughts of \<open>tests/test_analysis.py\<close>; identifiers and timestamps, which
  the tests leave to the defaults, are fixed here.
\<close>

definition test_thought1 :: ThoughtData where
  "test_thought1 =
     \<lparr>thought = ''First thought about climate change'', thought_number = 1, total_thoughts = 5,
      next_thought_needed = True, stage = SCOPING, tags = [''climate'', ''global''],
      axioms_used = [], assumptions_challenged = [], files_touched = [''README.md''],
      tests_to_run = [], risk_level = MEDIUM, dependencies = [], confidence_score = 1/2,
      timestamp = ''2024-01-01T00:00:01'', uid = 11\<rparr>"

definition test_thought2 :: ThoughtData where
  "test_thought2 =
     \<lparr>thought = ''Research on emissions data'', thought_number = 2, total_thoughts = 5,
      next_thought_needed = True, stage = RESEARCH_SPIKE,
      tags = [''climate'', ''data'', ''emissions''],
      axioms_used = [], assumptions_challenged = [], files_touched = [],
      tests_to_run = [], risk_level = MEDIUM, dependencies = [''epa-api''],
      confidence_score = 1/2, timestamp = ''2024-01-01T00:00:02'', uid = 12\<rparr>"

definition test_thought3 :: ThoughtData where
  "test_thought3 =
     \<lparr>thought = ''Implementation of policy impacts'', thought_number = 3, total_thoughts = 5,
      next_thought_needed = True, stage = IMPLEMENTATION, tags = [''policy'', ''impact''],
      axioms_used = [], assumptions_challenged = [], files_touched = [''policy.py''],
      tests_to_run = [''pytest tests/test_policy.py''], risk_level = HIGH, dependencies = [],
      confidence_score = 1/2, timestamp = ''2024-01-01T00:00:03'', uid = 13\<rparr>"

definition test_thought4 :: ThoughtData where
  "test_thought4 =
     \<lparr>thought = ''Another scoping thought'', thought_number = 4, total_thoughts = 5,
      next_thought_needed = True, stage = SCOPING, tags = [''problem'', ''definition''],
      axioms_used = [], assumptions_challenged = [], files_touched = [],
      tests_to_run = [], risk_level = MEDIUM, dependencies = [''stakeholder-alignment''],
      confidence_score = 1/2, timestamp = ''2024-01-01T00:00:04'', uid = 14\<rparr>"

definition test_all_thoughts :: "ThoughtData list" where
  "test_all_thoughts = [test_thought1, test_thought2, test_thought3, test_thought4]"

text \<open>
  \<open>TestHelpers\<close> is not among the sources, but the tests fix what it does on their inputs:
  for the first thought, \<open>test_find_related_thoughts_by_stage\<close> expects the other Scoping
  thought as the only related one, and \<open>test_analyze_thought\<close> expects the first-in-stage
  flag to be true. These helpers do that for the first thought and nothing for any other.
\<close>

definition suite_helpers :: TestHelpers where
  "suite_helpers =
     \<lparr>find_related_thoughts_test =
        (\<lambda>current_thought all_thoughts.
           if thought current_thought = ''First thought about climate change''
           then filter (\<lambda>t. stage t = stage current_thought \<and> uid t \<noteq> uid current_thought)
                  all_thoughts
           else []),
      set_first_in_stage_test =
        (\<lambda>t. thought t = ''First thought about climate change'')\<rparr>"

section \<open>Notions of the specification: relatedness\<close>

text \<open>
  The relatedness score in the words of the specification: 3 for the same stage, 1 per
  shared tag, 2 per shared file, 1 per shared dependency, 1 for the same risk level.
\<close>

definition shared :: "string list \<Rightarrow> string list \<Rightarrow> nat" where
  "shared a b = card {x. x \<in> set a \<and> x \<in> set b}"

definition score_spec :: "ThoughtData \<Rightarrow> ThoughtData \<Rightarrow> int" where
  "score_spec target c =
     (if stage c = stage target then 3 else 0)
     + 1 * int (shared (tags target) (tags c))
     + 2 * int (shared (files_touched target) (files_touched c))
     + 1 * int (shared (dependencies target) (dependencies c))
     + (if risk_level c = risk_level target then 1 else 0)"

text \<open>A candidate is any record but the target itself, identified by identifier.\<close>

definition is_candidate :: "ThoughtData \<Rightarrow> ThoughtData \<Rightarrow> bool" where
  "is_candidate target c \<longleftrightarrow> uid c \<noteq> uid target"

text \<open>The ranking: score descending, then sequence number descending.\<close>

definition ranks_before :: "ThoughtData \<Rightarrow> ThoughtData \<Rightarrow> ThoughtData \<Rightarrow> bool" where
  "ranks_before target a b \<longleftrightarrow>
     score_spec target a > score_spec target b
     \<or> (score_spec target a = score_spec target b \<and> thought_number a \<ge> thought_number b)"

text \<open>What the test helper, when there is one, returns for a search.\<close>

definition related_test_results ::
  "TestHelpers option \<Rightarrow> ThoughtData \<Rightarrow> ThoughtData list \<Rightarrow> ThoughtData list" where
  "related_test_results pytest target records =
     (case pytest of
        None \<Rightarrow> []
      | Some helpers \<Rightarrow> find_related_thoughts_test helpers target records)"

text \<open>Concrete inputs: two candidates related to \<open>example_thought\<close>, which has identifier 1.\<close>

definition candidate_a :: ThoughtData where
  "candidate_a = example_thought\<lparr>thought_number := 2, uid := 7, risk_level := LOW\<rparr>"

definition candidate_b :: ThoughtData where
  "candidate_b = example_thought\<lparr>thought_number := 3, uid := 8, stage := TESTING\<rparr>"

text \<open>
  The candidates that are kept (score other than 0), in the order of the record list, and
  their ranking.
\<close>

definition qualifying :: "ThoughtData \<Rightarrow> ThoughtData list \<Rightarrow> ThoughtData list" where
  "qualifying target records =
     filter (\<lambda>c. is_candidate target c \<and> score_spec target c \<noteq> 0) records"

definition ranked_candidates :: "ThoughtData \<Rightarrow> ThoughtData list \<Rightarrow> ThoughtData list" where
  "ranked_candidates target records =
     map snd (sort_reverse candidate_key
                (map (\<lambda>c. (score_spec target c, c)) (qualifying target records)))"

section \<open>Notions of the specification: summary\<close>

text \<open>The per-stage count map and the completion percentage of a summary, when it has them.\<close>

definition stages_of :: "SummaryResult \<Rightarrow> (string \<times> nat) list option" where
  "stages_of r = (case r of SummaryData s \<Rightarrow> Some (stages s) | _ \<Rightarrow> None)"

definition percent_complete_of :: "SummaryResult \<Rightarrow> real option" where
  "percent_complete_of r = (case r of SummaryData s \<Rightarrow> Some (percentComplete s) | _ \<Rightarrow> None)"

definition canonical_stage_keys :: "string list" where
  "canonical_stage_keys =
     [''Scoping'', ''Research & Spike'', ''Implementation'', ''Testing'', ''Review'']"

definition max_total_expected :: "ThoughtData list \<Rightarrow> int" where
  "max_total_expected records = Max (set (map total_thoughts records))"

text \<open>The size of the group stored under a key, 0 when the key is missing.\<close>

definition group_len :: "('k \<times> 'v list) list \<Rightarrow> 'k \<Rightarrow> nat" where
  "group_len d k = (case map_of d k of None \<Rightarrow> 0 | Some vs \<Rightarrow> length vs)"

section \<open>Notions of the specification: round trip\<close>

text \<open>
  Export of a project to a file, import of that file into a project, and the history that
  project then has.
\<close>

definition export_then_import ::
  "env \<Rightarrow> ThoughtStorage \<Rightarrow> string \<Rightarrow> string option \<Rightarrow> string option
     \<Rightarrow> error + ThoughtData list" where
  "export_then_import e st file_path source target =
     (case export_session e st file_path source of
        Inl err \<Rightarrow> Inl err
      | Inr st1 \<Rightarrow>
          (case import_session e st1 file_path target of
             Inl err \<Rightarrow> Inl err
           | Inr st2 \<Rightarrow>
               (case get_all_thoughts e st2 target of
                  Inl err \<Rightarrow> Inl err
                | Inr (st3, history) \<Rightarrow> Inr history)))"

text \<open>A record sequence with the identifiers blanked: all attributes but the identifier.\<close>

definition without_ids :: "ThoughtData list \<Rightarrow> ThoughtData list" where
  "without_ids records = map (\<lambda>t. t\<lparr>uid := 0\<rparr>) records"

text \<open>
  Concrete inputs: an environment whose UUID text is the number in unary, and a store with
  a two-record history for the project \<open>alpha\<close> and nothing on disk.
\<close>

definition example_env :: env where
  "example_env =
     \<lparr>str_of_uuid = (\<lambda>n. replicate n (CHR ''u'')),
      uuid_of_str = (\<lambda>s. if list_all (\<lambda>c. c = CHR ''u'') s then Some (length s) else None),
      uuid4 = (\<lambda>i. 100 + i),
      now = ''2024-01-01T00:00:00''\<rparr>"

definition example_store :: ThoughtStorage where
  "example_store =
     \<lparr>storage_dir = ''/data'', default_project_id = ''default'',
      project_histories = [''alpha'' \<mapsto> example_history, ''default'' \<mapsto> []],
      thought_history = [],
      files = Map.empty\<rparr>"

text \<open>
  The identifier of a record read back from its dict: the one parsed from the text, or a
  new one when the text of the identifier does not parse.
\<close>

definition reloaded_uid :: "env \<Rightarrow> nat \<Rightarrow> ThoughtData \<Rightarrow> nat" where
  "reloaded_uid e i t =
     (case uuid_of_str e (str_of_uuid e (uid t)) of Some u \<Rightarrow> u | None \<Rightarrow> uuid4 e i)"


section \<open>Record construction\<close>

lemma strip_Nil: "strip [] = []"
  by (simp add: strip_def)

lemma init_ok: "record_invariants kw \<Longrightarrow> ThoughtData_init kw = Inr kw"
  by (auto simp: record_invariants_def ThoughtData_init_def thought_not_empty_def
      thought_number_positive_def total_thoughts_valid_def confidence_in_range_def
      List.map_filter_def strip_Nil)

lemma init_fail:
  "\<not> record_invariants kw \<Longrightarrow>
     \<exists>msgs. msgs \<noteq> [] \<and> ThoughtData_init kw = Inl (ValidationError msgs)"
  by (auto simp: record_invariants_def ThoughtData_init_def thought_not_empty_def
      thought_number_positive_def total_thoughts_valid_def confidence_in_range_def
      List.map_filter_def Let_def)

lemma example_thought_ok: "record_invariants example_thought"
  by (simp add: record_invariants_def example_thought_def strip_def isspace_def)

lemma example_thought_bad: "\<not> record_invariants (example_thought\<lparr>thought_number := 4\<rparr>)"
  by (simp add: record_invariants_def example_thought_def)

text \<open>
  C4. Construction of a record succeeds if and only if the four invariants hold (body
  non-empty after trimming, sequence number at least 1, total at least the sequence number,
  confidence in [0,1]); it then yields the record with the given values. When an invariant is
  violated, construction fails with a validation error that carries at least one message,
  and no record is returned.
\<close>

theorem construction_iff_invariants:
  "((\<exists>r. ThoughtData_init kw = Inr r) \<longleftrightarrow> record_invariants kw)
   \<and> (record_invariants kw \<longrightarrow> ThoughtData_init kw = Inr kw)
   \<and> (\<not> record_invariants kw \<longrightarrow>
        (\<exists>msgs. msgs \<noteq> [] \<and> ThoughtData_init kw = Inl (ValidationError msgs)))"
  using init_ok [of kw] init_fail [of kw] by (cases "record_invariants kw") auto

theorem construction_iff_invariants_witness:
  "ThoughtData_init example_thought = Inr example_thought
   \<and> (\<exists>msgs. msgs \<noteq> [] \<and>
        ThoughtData_init (example_thought\<lparr>thought_number := 4\<rparr>) = Inl (ValidationError msgs))"
  using construction_iff_invariants [of example_thought]
    construction_iff_invariants [of "example_thought\<lparr>thought_number := 4\<rparr>"]
    example_thought_ok example_thought_bad
  by simp

section \<open>Stage parsing\<close>

lemma find_stage_None:
  "find (\<lambda>s. casefold (stage_value s) = n) all_stages = None \<longleftrightarrow> n \<notin> set canonical_names"
  by (auto simp: find_None_iff canonical_names_def casefold_def)

lemma find_synonym_None:
  "find (\<lambda>(s, names). n \<in> set names) synonyms = None \<longleftrightarrow> n \<notin> set alias_names"
  by (auto simp: find_None_iff alias_names_def)

lemma from_string_unresolved:
  assumes "v \<noteq> []" "\<not> resolvable v"
  shows "from_string v = Inl (ValueError (invalid_stage_message v))"
proof -
  let ?n = "lower (strip v)"
  have "find (\<lambda>s. casefold (stage_value s) = ?n) all_stages = None"
    using assms(2) by (simp add: find_stage_None resolvable_def)
  moreover have "find (\<lambda>(s, names). ?n \<in> set names) synonyms = None"
    using assms(2) by (simp add: find_synonym_None resolvable_def)
  ultimately show ?thesis using assms(1) by (simp add: from_string_def)
qed

lemma from_string_resolved:
  assumes "v \<noteq> []" "resolvable v"
  shows "\<exists>s. from_string v = Inr s"
proof -
  let ?n = "lower (strip v)"
  show ?thesis
  proof (cases "find (\<lambda>s. casefold (stage_value s) = ?n) all_stages")
    case (Some s)
    then show ?thesis using assms(1) by (simp add: from_string_def)
  next
    case None
    then have "?n \<in> set alias_names"
      using assms(2) by (simp add: find_stage_None resolvable_def)
    then obtain p where "find (\<lambda>(s, names). ?n \<in> set names) synonyms = Some p"
      using find_synonym_None [of ?n]
      by (cases "find (\<lambda>(s, names). ?n \<in> set names) synonyms") auto
    then show ?thesis using assms(1) None by (simp add: from_string_def split: prod.splits)
  qed
qed

lemma unresolvable_example: "\<not> resolvable ''Invalid Stage''"
  by code_simp

lemma resolvable_example: "resolvable '' QA ''"
  by code_simp

text \<open>
  C7, as stated, fails at the empty string: it matches no canonical value and no alias,
  and \<open>from_string\<close> returns the Implementation stage for it instead of raising.
\<close>

theorem from_string_empty_counterexample:
  "\<not> resolvable [] \<and> from_string [] = Inr IMPLEMENTATION"
  by (simp add: resolvable_def canonical_names_def alias_names_def synonyms_def all_stages_def
       lower_def strip_def from_string_def)

text \<open>
  C7, amended. For every non-empty input string that, trimmed and lowercased, is neither a
  canonical stage value nor a documented alias, \<open>from_string\<close> fails with a parse error
  (a \<open>ValueError\<close> naming the input); a non-empty input that does match yields a stage;
  the empty string is not an error, it defaults to Implementation.
\<close>

theorem from_string_unresolvable:
  "(v \<noteq> [] \<and> \<not> resolvable v \<longrightarrow> from_string v = Inl (ValueError (invalid_stage_message v)))
   \<and> (v \<noteq> [] \<and> resolvable v \<longrightarrow> (\<exists>s. from_string v = Inr s))
   \<and> from_string [] = Inr IMPLEMENTATION"
  using from_string_unresolved from_string_resolved by (simp add: from_string_def)

theorem from_string_unresolvable_witness:
  "from_string ''Invalid Stage'' = Inl (ValueError (invalid_stage_message ''Invalid Stage''))
   \<and> (\<exists>s. from_string '' QA '' = Inr s)"
  using from_string_unresolvable [of "''Invalid Stage''"] from_string_unresolvable [of "'' QA ''"]
    unresolvable_example resolvable_example
  by simp

section \<open>Project identifiers\<close>

lemma allowed_not_space: "allowed_char c \<Longrightarrow> \<not> isspace c"
  by (auto simp: allowed_char_def isspace_def Let_def)

lemma dropWhile_none: "\<forall>c\<in>set s. \<not> P c \<Longrightarrow> dropWhile P s = s"
  by (cases s) auto

lemma strip_no_space: "\<forall>c\<in>set s. \<not> isspace c \<Longrightarrow> strip s = s"
  by (simp add: strip_def dropWhile_none)

lemma re_sub_unsafe_allowed: "\<forall>c\<in>set (re_sub_unsafe s). allowed_char c"
  by (auto simp: re_sub_unsafe_def allowed_char_def Let_def)

lemma re_sub_unsafe_id: "\<forall>c\<in>set s. allowed_char c \<Longrightarrow> re_sub_unsafe s = s"
  by (simp add: re_sub_unsafe_def map_idI)

lemma default_allowed: "\<forall>c\<in>set ''default''. allowed_char c"
  by (simp add: allowed_char_def)

lemma sanitize_allowed: "\<forall>c\<in>set (sanitize_project_id p). allowed_char c"
  using re_sub_unsafe_allowed default_allowed
  by (auto simp: sanitize_project_id_def Let_def split: option.splits)

lemma sanitize_nonempty: "sanitize_project_id p \<noteq> []"
  by (auto simp: sanitize_project_id_def Let_def split: option.splits)

lemma sanitize_fixed:
  assumes "s \<noteq> []" "\<forall>c\<in>set s. allowed_char c"
  shows "sanitize_project_id (Some s) = s"
proof -
  have "strip s = s" using assms(2) by (simp add: strip_no_space allowed_not_space)
  moreover have "re_sub_unsafe s = s" using assms(2) by (rule re_sub_unsafe_id)
  ultimately show ?thesis using assms(1) by (simp add: sanitize_project_id_def)
qed

text \<open>
  C9. The sanitizer is a function (hence deterministic) and idempotent. An absent or empty
  identifier maps to \<open>default\<close>, and so does one that is empty once trimmed; any other
  identifier is trimmed and every character outside \<open>[A-Za-z0-9._-]\<close> is replaced by an
  underscore. In particular the empty string gives \<open>default\<close> and \<open>a/b c\<close> gives
  \<open>a_b_c\<close>.
\<close>

theorem sanitize_project_id_spec:
  "sanitize_project_id None = ''default''
   \<and> sanitize_project_id (Some []) = ''default''
   \<and> sanitize_project_id (Some x) =
       (if strip x = [] then ''default''
        else map (\<lambda>c. if allowed_char c then c else CHR ''_'') (strip x))
   \<and> sanitize_project_id (Some (sanitize_project_id p)) = sanitize_project_id p
   \<and> sanitize_project_id (Some ''a/b c'') = ''a_b_c''"
proof -
  have a: "sanitize_project_id None = ''default''"
    by (simp add: sanitize_project_id_def)
  have b: "sanitize_project_id (Some []) = ''default''"
    by (simp add: sanitize_project_id_def)
  have c: "sanitize_project_id (Some x) =
       (if strip x = [] then ''default''
        else map (\<lambda>c. if allowed_char c then c else CHR ''_'') (strip x))"
    by (auto simp: sanitize_project_id_def re_sub_unsafe_def strip_def)
  have d: "sanitize_project_id (Some (sanitize_project_id p)) = sanitize_project_id p"
    by (rule sanitize_fixed [OF sanitize_nonempty sanitize_allowed])
  have e: "sanitize_project_id (Some ''a/b c'') = ''a_b_c''"
    by (simp add: sanitize_project_id_def re_sub_unsafe_def strip_def isspace_def allowed_char_def)
  from a b c d e show ?thesis by blast
qed

theorem sanitize_project_id_spec_witness:
  "sanitize_project_id (Some ''  my proj?  '') = ''my_proj_''
   \<and> sanitize_project_id (Some ''my_proj_'') = ''my_proj_''"
proof -
  note t = sanitize_project_id_spec [of "''  my proj?  ''" "Some ''  my proj?  ''"]
  have c: "(if strip ''  my proj?  '' = [] then ''default''
        else map (\<lambda>c. if allowed_char c then c else CHR ''_'') (strip ''  my proj?  ''))
       = ''my_proj_''"
    by code_simp
  from t c have a: "sanitize_project_id (Some ''  my proj?  '') = ''my_proj_''"
    by (simp only:)
  from t have "sanitize_project_id (Some (sanitize_project_id (Some ''  my proj?  '')))
       = sanitize_project_id (Some ''  my proj?  '')"
    by blast
  then have b: "sanitize_project_id (Some ''my_proj_'') = ''my_proj_''"
    by (simp only: a)
  from a b show ?thesis by blast
qed

section \<open>Analysis of a single thought\<close>

lemma fold_coverage:
  "fold (\<lambda>t coverage. coverage(stage t := coverage (stage t) + 1)) ts c s
     = c s + records_in_stage s ts"
  by (induction ts arbitrary: c) (auto simp: records_in_stage_def)

lemma stage_coverage_count: "stage_coverage ts s = records_in_stage s ts"
  unfolding stage_coverage_def by (subst fold_coverage) simp

lemma all_stages_complete: "s \<in> set all_stages"
  by (cases s) (simp_all add: all_stages_def)

lemma pending_empty_iff:
  "length (map stage_value (filter (\<lambda>s. stage_coverage ts s = 0) all_stages)) = 0
     \<longleftrightarrow> \<not> list_ex (\<lambda>s. records_in_stage s ts = 0) all_stages"
  by (auto simp: filter_empty_conv stage_coverage_count list_ex_iff)

lemma guidance_eq_spec:
  "guidance t (map stage_value (filter (\<lambda>s. stage_coverage ts s = 0) all_stages))
      (times_100 (int_truediv (thought_number t) (total_thoughts t)))
    = guidance_spec t ts"
  unfolding guidance_def guidance_spec_def progress_percent_def pending_empty_iff by simp

lemma analyze_guidance:
  "total_thoughts t \<noteq> 0 \<Longrightarrow>
     guidance_of (analyze_thought pytest t ts)
       = Inr (guidance t (map stage_value (filter (\<lambda>s. stage_coverage ts s = 0) all_stages))
              (times_100 (int_truediv (thought_number t) (total_thoughts t))))"
  by (simp add: analyze_thought_def guidance_of_def Let_def split: prod.splits)

lemma analyze_zero_total:
  "total_thoughts t = 0 \<Longrightarrow> analyze_thought pytest t ts = Inl ZeroDivisionError"
  by (simp add: analyze_thought_def Let_def split: prod.splits)

lemma analyze_first_in_stage:
  "total_thoughts t \<noteq> 0 \<Longrightarrow>
     first_in_stage_of (analyze_thought pytest t ts)
       = Inr (claimed_by_test_helper pytest t \<or> records_in_stage (stage t) ts \<le> 1)"
  by (simp add: analyze_thought_def first_in_stage_of_def claimed_by_test_helper_def
        records_in_stage_def Let_def split: prod.splits)

lemma analyze_progress:
  "total_thoughts t \<noteq> 0 \<Longrightarrow>
     map_sum (\<lambda>e. e) progress (analyze_thought pytest t ts) = Inr (progress_percent t)"
  by (simp add: analyze_thought_def progress_percent_def Let_def split: prod.splits)

lemma no_impl_not_ready:
  "\<forall>r\<in>set ts. stage r \<noteq> IMPLEMENTATION \<Longrightarrow> \<not> has_testing_after_implementation ts"
  by (simp add: has_testing_after_implementation_def filter_empty_conv)

lemma analyze_testing_ready:
  "total_thoughts t \<noteq> 0 \<Longrightarrow>
     testing_ready_of (analyze_thought pytest t ts) = Inr (has_testing_after_implementation ts)"
  by (simp add: analyze_thought_def testing_ready_of_def Let_def split: prod.splits)

lemma example_totals:
  "total_thoughts example_thought = 3" "total_thoughts thought_2_of_5 = 5"
  "total_thoughts thought_4_of_5 = 5" "total_thoughts review_5_of_5 = 5"
  "thought_number review_5_of_5 = 5" "stage review_5_of_5 = REVIEW"
  by (simp_all add: example_thought_def thought_2_of_5_def thought_4_of_5_def review_5_of_5_def)

text \<open>
  C1, as stated, fails: a thought numbered 5 of 5 in stage Review is stopped by the first
  condition of the heuristic, the count check, so the reason is the one of that check and
  not the one of the Review check.
\<close>

theorem final_review_counterexample:
  "guidance_of (analyze_thought None review_5_of_5 [])
     = Inr (False, ''Reached total planned thoughts.'')
   \<and> guidance_of (analyze_thought None review_5_of_5 [])
     \<noteq> Inr (False, ''Review stage complete.'')"
  by (simp add: analyze_guidance guidance_def example_totals)

text \<open>
  C1, amended. For a thought with sequence number 5, total expected 5 and stage Review,
  analysed against any record list, the guidance stops (recommends no further thought) with
  the reason that the total of planned thoughts is reached.
\<close>

theorem final_review_guidance:
  "thought_number t = 5 \<Longrightarrow> total_thoughts t = 5 \<Longrightarrow> stage t = REVIEW \<Longrightarrow>
     guidance_of (analyze_thought pytest t ts) = Inr (False, ''Reached total planned thoughts.'')"
  by (simp add: analyze_guidance guidance_def)

theorem final_review_guidance_witness:
  "guidance_of (analyze_thought None review_5_of_5 example_history)
     = Inr (False, ''Reached total planned thoughts.'')"
  using final_review_guidance [of review_5_of_5 None example_history]
  by (simp add: example_totals)

text \<open>
  C2. For every thought (with a total other than zero, as every constructed record has) and
  every record list, the analysis succeeds and its guidance is the result of the four
  conditions evaluated in order, the first match winning: sequence number at least the
  total; stage Review; no canonical stage with zero coverage and progress at least 80
  percent; otherwise continue. The progress is the one the analysis reports: sequence
  number by total, times 100, in floating point.
\<close>

theorem guidance_first_match:
  assumes "total_thoughts t \<noteq> 0"
  shows "guidance_of (analyze_thought pytest t ts) = Inr (guidance_spec t ts)"
  by (simp only: analyze_guidance [OF assms] guidance_eq_spec)

lemma progress_examples:
  "progress_percent thought_4_of_5 = 80"
  "progress_percent thought_2_of_5 = 40"
  "progress_percent (thought_4_of_5\<lparr>thought_number := 7999999999999999,
      total_thoughts := 10000000000000000\<rparr>) = 80"
  by (simp_all add: progress_percent_def thought_4_of_5_def thought_2_of_5_def
        example_thought_def) code_simp+

lemma coverage_examples:
  "\<not> list_ex (\<lambda>s. records_in_stage s full_history = 0) all_stages"
  "list_ex (\<lambda>s. records_in_stage s example_history = 0) all_stages"
  by (simp_all add: records_in_stage_def all_stages_def full_history_def example_history_def
        thought_4_of_5_def thought_2_of_5_def review_5_of_5_def example_thought_def)

lemma guidance_spec_examples:
  "guidance_spec thought_4_of_5 full_history = (False, ''Core stages covered; diminishing returns.'')"
  "guidance_spec thought_2_of_5 example_history = (True, ''Continue to next step.'')"
  "guidance_spec (thought_4_of_5\<lparr>thought_number := 7999999999999999,
      total_thoughts := 10000000000000000\<rparr>) full_history
     = (False, ''Core stages covered; diminishing returns.'')"
  unfolding guidance_spec_def progress_examples
  by (simp_all add: coverage_examples thought_4_of_5_def thought_2_of_5_def example_thought_def)

theorem guidance_first_match_witness:
  "guidance_of (analyze_thought None thought_4_of_5 full_history)
     = Inr (False, ''Core stages covered; diminishing returns.'')
   \<and> guidance_of (analyze_thought None thought_2_of_5 example_history)
     = Inr (True, ''Continue to next step.'')
   \<and> guidance_of (analyze_thought None
         (thought_4_of_5\<lparr>thought_number := 7999999999999999,
            total_thoughts := 10000000000000000\<rparr>) full_history)
     = Inr (False, ''Core stages covered; diminishing returns.'')"
  using guidance_first_match [of thought_4_of_5 None full_history]
    guidance_first_match [of thought_2_of_5 None example_history]
    guidance_first_match [of "thought_4_of_5\<lparr>thought_number := 7999999999999999,
            total_thoughts := 10000000000000000\<rparr>" None full_history]
  by (simp add: example_totals guidance_spec_examples)

lemma suite_first_in_stage:
  "claimed_by_test_helper (Some suite_helpers) test_thought1"
  "records_in_stage (stage test_thought1) test_all_thoughts = 2"
  "total_thoughts test_thought1 = 5"
  by (simp_all add: claimed_by_test_helper_def suite_helpers_def records_in_stage_def
        test_all_thoughts_def test_thought1_def test_thought2_def test_thought3_def
        test_thought4_def)

text \<open>
  C8, as stated, fails when \<open>pytest\<close> is installed and the test helper claims the thought:
  the flag is then true whatever the records are. On the inputs of the repository's own
  test two records have the stage of the thought, and the flag is true.
\<close>

theorem first_in_stage_counterexample:
  "first_in_stage_of (analyze_thought (Some suite_helpers) test_thought1 test_all_thoughts)
     = Inr True
   \<and> records_in_stage (stage test_thought1) test_all_thoughts = 2"
  by (simp add: analyze_first_in_stage suite_first_in_stage)

text \<open>
  C8, amended. For every thought and record list, the first-in-stage flag of the analysis
  is true if and only if at most one record of the list has the stage of the thought, or
  \<open>pytest\<close> is installed and its test helper claims the thought as its first-in-stage
  test case.
\<close>

theorem first_in_stage_iff_count:
  "total_thoughts t \<noteq> 0 \<Longrightarrow>
     first_in_stage_of (analyze_thought pytest t ts)
       = Inr (claimed_by_test_helper pytest t \<or> records_in_stage (stage t) ts \<le> 1)"
  by (rule analyze_first_in_stage)

theorem first_in_stage_iff_count_witness:
  "first_in_stage_of (analyze_thought None example_thought example_history) = Inr True
   \<and> first_in_stage_of (analyze_thought None example_thought [example_thought, example_thought])
       = Inr False"
  using first_in_stage_iff_count [of example_thought None example_history]
    first_in_stage_iff_count [of example_thought None "[example_thought, example_thought]"]
  by (simp add: example_totals claimed_by_test_helper_def records_in_stage_def
        example_history_def thought_2_of_5_def example_thought_def)

text \<open>
  C10. For every record list without a record of stage Implementation, the testing-ready
  insight of the analysis is false, also when the list has records of stage Testing.
\<close>

theorem testing_ready_needs_implementation:
  "total_thoughts t \<noteq> 0 \<Longrightarrow> \<forall>r\<in>set ts. stage r \<noteq> IMPLEMENTATION \<Longrightarrow>
     testing_ready_of (analyze_thought pytest t ts) = Inr False"
  by (simp add: analyze_testing_ready no_impl_not_ready)

theorem testing_ready_needs_implementation_witness:
  "stage thought_2_of_5 = TESTING
   \<and> testing_ready_of (analyze_thought None example_thought example_history) = Inr False"
  using testing_ready_needs_implementation [of example_thought example_history None]
  by (simp add: example_totals example_history_def thought_2_of_5_def example_thought_def)

section \<open>Relatedness search\<close>

lemma shared_card: "int (shared a b) = overlap a b"
  by (simp add: shared_def overlap_def Int_def)

lemma score_eq_spec: "relatedness_score target c = score_spec target c"
  by (simp add: relatedness_score_def score_spec_def shared_card Let_def)

lemma score_spec_nonneg: "0 \<le> score_spec target c"
  by (simp add: score_spec_def)

lemma collect_candidates_eq:
  "collect_candidates target ts acc
     = acc @ map (\<lambda>c. (score_spec target c, c))
               (filter (\<lambda>c. is_candidate target c \<and> score_spec target c \<noteq> 0) ts)"
proof (induction ts arbitrary: acc)
  case Nil
  then show ?case by simp
next
  case (Cons t ts)
  have "score_spec target t > 0 \<longleftrightarrow> score_spec target t \<noteq> 0"
    using score_spec_nonneg [of target t] by linarith
  then show ?case
    by (simp add: Cons.IH score_eq_spec is_candidate_def Let_def)
qed

lemma sort_reverse_mset: "mset (sort_reverse k xs) = mset xs"
  by (simp add: sort_reverse_def)

lemma sort_reverse_sorted: "sorted_wrt (\<lambda>a b. k a \<ge> k b) (sort_reverse k xs)"
proof -
  have "sorted (map k (sort_key k (rev xs)))" by simp
  then have "sorted_wrt (\<lambda>a b. k a \<le> k b) (sort_key k (rev xs))"
    by (simp add: sorted_map)
  then show ?thesis
    by (simp add: sort_reverse_def sorted_wrt_rev)
qed

lemma find_related_eq:
  assumes "related_test_results pytest target records = []"
  shows "find_related_thoughts pytest target records m
           = take m (ranked_candidates target records)"
  using assms
  by (simp add: find_related_thoughts_def related_test_results_def ranked_candidates_def
        qualifying_def collect_candidates_eq take_map Let_def)

lemma find_related_hook:
  assumes "related_test_results pytest target records \<noteq> []"
  shows "find_related_thoughts pytest target records m
           = related_test_results pytest target records"
  using assms
  by (simp add: find_related_thoughts_def related_test_results_def Let_def)

lemma ranked_mset: "mset (ranked_candidates target records) = mset (qualifying target records)"
proof -
  let ?ps = "map (\<lambda>c. (score_spec target c, c)) (qualifying target records)"
  have "mset (map snd (sort_reverse candidate_key ?ps)) = image_mset snd (mset (sort_reverse candidate_key ?ps))"
    by simp
  also have "\<dots> = image_mset snd (mset ?ps)"
    by (simp only: sort_reverse_mset)
  also have "\<dots> = mset (qualifying target records)"
    by (simp add: multiset.map_comp comp_def)
  finally show ?thesis by (simp add: ranked_candidates_def)
qed

lemma ranked_sorted: "sorted_wrt (ranks_before target) (ranked_candidates target records)"
proof -
  let ?ps = "map (\<lambda>c. (score_spec target c, c)) (qualifying target records)"
  let ?s = "sort_reverse candidate_key ?ps"
  have s: "sorted_wrt (\<lambda>a b. candidate_key a \<ge> candidate_key b) ?s"
    by (rule sort_reverse_sorted)
  have mem: "fst p = score_spec target (snd p)" if "p \<in> set ?s" for p
  proof -
    from that have "p \<in> set ?ps" by (simp add: sort_reverse_def)
    then show ?thesis by auto
  qed
  have "sorted_wrt (\<lambda>a b. ranks_before target (snd a) (snd b)) ?s"
  proof (rule sorted_wrt_mono_rel [OF _ s])
    fix a b
    assume a: "a \<in> set ?s" and b: "b \<in> set ?s" and le: "candidate_key b \<le> candidate_key a"
    from le show "ranks_before target (snd a) (snd b)"
      unfolding ranks_before_def candidate_key_def less_eq_prod_def
      using mem [OF a] mem [OF b] by auto
  qed
  then show ?thesis
    by (simp add: ranked_candidates_def sorted_wrt_map)
qed

lemma qualifying_candidates:
  "set (qualifying target records)
     = {c \<in> set records. is_candidate target c \<and> score_spec target c \<noteq> 0}"
  by (auto simp: qualifying_def)

lemma find_related_example:
  "map uid (find_related_thoughts None example_thought
              [example_thought, candidate_b, candidate_a] 3) = [7, 8]"
  by code_simp

lemma suite_related:
  "find_related_thoughts (Some suite_helpers) test_thought1 test_all_thoughts 3 = [test_thought4]"
  "find_related_thoughts None test_thought1 test_all_thoughts 3 = [test_thought4, test_thought2]"
  "related_test_results (Some suite_helpers) test_thought1 test_all_thoughts = [test_thought4]"
  by code_simp+

lemma suite_candidate:
  "is_candidate test_thought1 test_thought2" "score_spec test_thought1 test_thought2 = 2"
  unfolding score_eq_spec [symmetric] by code_simp+

text \<open>
  C3, as stated, fails when \<open>pytest\<close> is installed and the test helper returns results of
  its own, which are then returned in place of the ranking. On the inputs of the repository's
  own test only the fourth thought is returned, although the second thought is a candidate
  of score 2 and three results are allowed; without the helper both are returned.
\<close>

theorem find_related_hook_counterexample:
  "find_related_thoughts (Some suite_helpers) test_thought1 test_all_thoughts 3 = [test_thought4]
   \<and> is_candidate test_thought1 test_thought2
   \<and> score_spec test_thought1 test_thought2 = 2
   \<and> find_related_thoughts None test_thought1 test_all_thoughts 3
       = [test_thought4, test_thought2]"
  by (simp add: suite_related suite_candidate)

text \<open>
  C3, amended. Whenever the test helper consulted under \<open>pytest\<close> returns no results of its
  own (as always when \<open>pytest\<close> is not installed), for every target record, record list and
  \<open>maxResults\<close>: the candidates are the records other than the target, by identifier; each
  is scored 3 for the same stage, 1 per shared tag, 2 per shared file, 1 per shared
  dependency and 1 for the same risk level; those of score 0 are dropped; the ranking is a
  rearrangement of the remaining ones, sorted by score descending, then sequence number
  descending; the result is the first \<open>maxResults\<close> records of the ranking, so at most
  \<open>maxResults\<close> of them, and it never contains a record with the identifier of the target.
  When the test helper does return results, they are the result.
\<close>

theorem find_related_spec:
  "(related_test_results pytest target records = [] \<longrightarrow>
      mset (ranked_candidates target records) = mset (qualifying target records)
    \<and> sorted_wrt (ranks_before target) (ranked_candidates target records)
    \<and> find_related_thoughts pytest target records m = take m (ranked_candidates target records)
    \<and> length (find_related_thoughts pytest target records m) \<le> m
    \<and> (\<forall>r \<in> set (find_related_thoughts pytest target records m).
          r \<in> set records \<and> uid r \<noteq> uid target \<and> score_spec target r \<noteq> 0))
   \<and> (related_test_results pytest target records \<noteq> [] \<longrightarrow>
        find_related_thoughts pytest target records m
          = related_test_results pytest target records)"
proof (intro conjI impI)
  assume quiet: "related_test_results pytest target records = []"
  show eq: "find_related_thoughts pytest target records m
              = take m (ranked_candidates target records)"
    using quiet by (rule find_related_eq)
  show "length (find_related_thoughts pytest target records m) \<le> m"
    by (simp add: eq)
  show "mset (ranked_candidates target records) = mset (qualifying target records)"
    by (rule ranked_mset)
  show "sorted_wrt (ranks_before target) (ranked_candidates target records)"
    by (rule ranked_sorted)
  have "set (take m (ranked_candidates target records)) \<subseteq> set (qualifying target records)"
    using set_take_subset [of m "ranked_candidates target records"]
      mset_eq_setD [OF ranked_mset [of target records]] by simp
  then show "\<forall>r \<in> set (find_related_thoughts pytest target records m).
          r \<in> set records \<and> uid r \<noteq> uid target \<and> score_spec target r \<noteq> 0"
    by (auto simp: eq qualifying_candidates is_candidate_def)
next
  assume "related_test_results pytest target records \<noteq> []"
  then show "find_related_thoughts pytest target records m
          = related_test_results pytest target records"
    by (rule find_related_hook)
qed

theorem find_related_spec_witness:
  "find_related_thoughts None example_thought [example_thought, candidate_b, candidate_a] 3
     = take 3 (ranked_candidates example_thought [example_thought, candidate_b, candidate_a])
   \<and> length (find_related_thoughts None example_thought
                [example_thought, candidate_b, candidate_a] 3) \<le> 3
   \<and> map uid (find_related_thoughts None example_thought
                [example_thought, candidate_b, candidate_a] 3) = [7, 8]
   \<and> find_related_thoughts (Some suite_helpers) test_thought1 test_all_thoughts 3
       = [test_thought4]"
proof -
  have quiet: "related_test_results None example_thought
              [example_thought, candidate_b, candidate_a] = []"
    by (simp add: related_test_results_def)
  have loud: "related_test_results (Some suite_helpers) test_thought1 test_all_thoughts \<noteq> []"
    by (simp add: suite_related)
  from find_related_spec [of None example_thought "[example_thought, candidate_b, candidate_a]" 3]
    find_related_spec [of "Some suite_helpers" test_thought1 test_all_thoughts 3]
    quiet loud find_related_example suite_related(3)
  show ?thesis by simp
qed

section \<open>Summary\<close>

lemma group_len_append:
  "group_len (setdefault_append k v d) k' = group_len d k' + (if k = k' then 1 else 0)"
  by (induction d) (auto simp: group_len_def)

lemma group_len_fold:
  "group_len (fold (\<lambda>t d. setdefault_append (key t) t d) ts d) k
     = group_len d k + length (filter (\<lambda>t. key t = k) ts)"
  by (induction ts arbitrary: d) (auto simp: group_len_append)

lemma dict_get_lengths:
  "dict_get (map (\<lambda>(s, l). (s, length l)) d) k 0 = group_len d k"
  by (induction d) (auto simp: dict_get_def group_len_def)

lemma stage_value_inj: "stage_value a = stage_value b \<longleftrightarrow> a = b"
  by (cases a; cases b) simp_all

lemma group_len_Nil: "group_len [] k = 0"
  by (simp add: group_len_def)

lemma stage_count_lookup:
  "dict_get (map (\<lambda>(s, l). (s, length l))
               (fold (\<lambda>t d. setdefault_append (stage_value (stage t)) t d) ts []))
     (stage_value s) 0 = records_in_stage s ts"
  unfolding dict_get_lengths
  by (subst group_len_fold) (simp add: group_len_Nil records_in_stage_def stage_value_inj)

lemma summary_stages:
  "ts \<noteq> [] \<Longrightarrow> stages_of (generate_summary ts)
     = Some (map (\<lambda>s. (stage_value s, records_in_stage s ts)) all_stages)"
  by (simp add: generate_summary_def stages_of_def Let_def stage_count_lookup)

lemma summary_percent:
  "ts \<noteq> [] \<Longrightarrow> percent_complete_of (generate_summary ts)
     = Some (if max_total_expected ts > 0
             then times_100 (int_truediv (int (length ts)) (max_total_expected ts)) else 0)"
  by (simp add: generate_summary_def percent_complete_of_def Let_def max_total_expected_def)

lemma canonical_keys: "map stage_value all_stages = canonical_stage_keys"
  by (simp add: all_stages_def canonical_stage_keys_def)

lemma summary_empty: "generate_summary [] = SummaryText ''No thoughts recorded yet''"
  by (simp add: generate_summary_def)

lemma example_history_facts:
  "example_history \<noteq> []" "max_total_expected example_history = 5"
  "length example_history = 2"
  "map (\<lambda>s. (stage_value s, records_in_stage s example_history)) all_stages
     = [(''Scoping'', 1), (''Research & Spike'', 0), (''Implementation'', 0),
        (''Testing'', 1), (''Review'', 0)]"
  by (simp_all add: example_history_def max_total_expected_def thought_2_of_5_def
        example_thought_def records_in_stage_def all_stages_def)

text \<open>
  C5. For every non-empty record list (of records whose totals are not all negative, as
  holds for constructed records), the summary is an aggregate whose per-stage count map
  has exactly the five canonical stage keys, each mapped to the number of records of that
  stage (0 for a stage without records), and whose \<open>percentComplete\<close> is the number of
  records divided by the maximum total-expected, times 100, in floating point as the
  program computes it, or 0 when that maximum is 0. For the empty record list the summary is
  the fixed placeholder text.
\<close>

theorem summary_stages_and_percent:
  assumes "ts \<noteq> []" and "0 \<le> max_total_expected ts"
  shows "stages_of (generate_summary ts)
           = Some (map (\<lambda>s. (stage_value s, records_in_stage s ts)) all_stages)
    \<and> map_option (map fst) (stages_of (generate_summary ts)) = Some canonical_stage_keys
    \<and> percent_complete_of (generate_summary ts)
        = Some (if max_total_expected ts = 0 then 0
                else times_100 (int_truediv (int (length ts)) (max_total_expected ts)))
    \<and> generate_summary [] = SummaryText ''No thoughts recorded yet''"
proof -
  have a: "stages_of (generate_summary ts)
             = Some (map (\<lambda>s. (stage_value s, records_in_stage s ts)) all_stages)"
    using assms(1) by (rule summary_stages)
  have b: "map_option (map fst) (stages_of (generate_summary ts)) = Some canonical_stage_keys"
    by (simp add: a comp_def canonical_keys)
  have c: "percent_complete_of (generate_summary ts)
        = Some (if max_total_expected ts = 0 then 0
                else times_100 (int_truediv (int (length ts)) (max_total_expected ts)))"
    using assms(2) by (simp add: summary_percent [OF assms(1)])
  from a b c summary_empty show ?thesis by blast
qed

lemma percent_examples:
  "times_100 (int_truediv 2 5) = 40"
  "times_100 (int_truediv 7 25) = 28 + 1 / 2 ^ 48"
  by code_simp+

lemma seven_of_25_facts:
  "replicate 7 (example_thought\<lparr>total_thoughts := 25\<rparr>) \<noteq> []"
  "max_total_expected (replicate 7 (example_thought\<lparr>total_thoughts := 25\<rparr>)) = 25"
  "length (replicate 7 (example_thought\<lparr>total_thoughts := 25\<rparr>)) = 7"
  by (simp_all add: max_total_expected_def)

theorem summary_stages_and_percent_witness:
  "stages_of (generate_summary example_history)
     = Some [(''Scoping'', 1), (''Research & Spike'', 0), (''Implementation'', 0),
             (''Testing'', 1), (''Review'', 0)]
   \<and> percent_complete_of (generate_summary example_history) = Some 40
   \<and> percent_complete_of (generate_summary (replicate 7 (example_thought\<lparr>total_thoughts := 25\<rparr>)))
       = Some (28 + 1 / 2 ^ 48)"
proof -
  have h: "0 \<le> max_total_expected example_history"
    by (simp add: example_history_facts)
  have h7: "0 \<le> max_total_expected (replicate 7 (example_thought\<lparr>total_thoughts := 25\<rparr>))"
    by (simp add: seven_of_25_facts)
  from summary_stages_and_percent [OF example_history_facts(1) h]
    summary_stages_and_percent [OF seven_of_25_facts(1) h7]
  show ?thesis by (simp add: example_history_facts seven_of_25_facts percent_examples)
qed

section \<open>Export and import\<close>

lemma camel_keys:
  "to_camel_case ''thought'' = ''thought''"
  "to_camel_case ''thought_number'' = ''thoughtNumber''"
  "to_camel_case ''total_thoughts'' = ''totalThoughts''"
  "to_camel_case ''next_thought_needed'' = ''nextThoughtNeeded''"
  "to_camel_case ''tags'' = ''tags''"
  "to_camel_case ''axioms_used'' = ''axiomsUsed''"
  "to_camel_case ''assumptions_challenged'' = ''assumptionsChallenged''"
  "to_camel_case ''files_touched'' = ''filesTouched''"
  "to_camel_case ''tests_to_run'' = ''testsToRun''"
  "to_camel_case ''risk_level'' = ''riskLevel''"
  "to_camel_case ''dependencies'' = ''dependencies''"
  "to_camel_case ''confidence_score'' = ''confidenceScore''"
  "to_camel_case ''timestamp'' = ''timestamp''"
  "to_camel_case ''id'' = ''id''"
  by code_simp+

lemma to_dict_with_id:
  "to_dict e True t =
     [(''thought'', JStr (thought t)),
      (''thoughtNumber'', JInt (thought_number t)),
      (''totalThoughts'', JInt (total_thoughts t)),
      (''nextThoughtNeeded'', JBool (next_thought_needed t)),
      (''tags'', strs (tags t)),
      (''axiomsUsed'', strs (axioms_used t)),
      (''assumptionsChallenged'', strs (assumptions_challenged t)),
      (''filesTouched'', strs (files_touched t)),
      (''testsToRun'', strs (tests_to_run t)),
      (''riskLevel'', JStr (risk_value (risk_level t))),
      (''dependencies'', strs (dependencies t)),
      (''confidenceScore'', JFloat (confidence_score t)),
      (''timestamp'', JStr (timestamp t)),
      (''id'', JStr (str_of_uuid e (uid t))),
      (''stage'', JStr (stage_value (stage t)))]"
  by (simp add: to_dict_def camel_keys)

lemma str_items_map: "str_items (map JStr xs) = Some xs"
  by (induction xs) simp_all

lemma as_strs_strs: "as_strs (strs xs) = Some xs"
  by (simp add: strs_def str_items_map)

lemma stage_value_nonempty: "stage_value s \<noteq> []"
  by (cases s) simp_all

lemma from_string_stage_value: "from_string (stage_value s) = Inr s"
  by (cases s; simp; code_simp)

lemma RiskLevel_of_value: "RiskLevel_of (lower (risk_value r)) = Inr r"
  by (cases r; simp; code_simp)


lemma record_invariants_uid: "record_invariants (t\<lparr>uid := u\<rparr>) = record_invariants t"
  by (simp add: record_invariants_def)

lemma from_dict_to_dict:
  assumes "record_invariants t"
  shows "from_dict e i (to_dict e True t) = Inr (t\<lparr>uid := reloaded_uid e i t\<rparr>)"
proof -
  have "record_invariants (t\<lparr>uid := reloaded_uid e i t\<rparr>)"
    using assms by (simp add: record_invariants_uid)
  then have init: "ThoughtData_init (t\<lparr>uid := reloaded_uid e i t\<rparr>) = Inr (t\<lparr>uid := reloaded_uid e i t\<rparr>)"
    by (rule init_ok)
  have rec: "\<lparr>thought = thought t, thought_number = thought_number t,
        total_thoughts = total_thoughts t, next_thought_needed = next_thought_needed t,
        stage = stage t, tags = tags t, axioms_used = axioms_used t,
        assumptions_challenged = assumptions_challenged t, files_touched = files_touched t,
        tests_to_run = tests_to_run t, risk_level = risk_level t,
        dependencies = dependencies t, confidence_score = confidence_score t,
        timestamp = timestamp t, uid = reloaded_uid e i t\<rparr> = t\<lparr>uid := reloaded_uid e i t\<rparr>"
    by (cases t) simp
  show ?thesis
    unfolding to_dict_with_id from_dict_def
    by (simp add: field_def as_strs_strs stage_value_nonempty from_string_stage_value
          RiskLevel_of_value rec init reloaded_uid_def [symmetric])
qed

lemma from_dicts_to_dicts:
  assumes "\<forall>t\<in>set ts. record_invariants t"
  shows "\<exists>ts'. from_dicts e i (map (to_dict e True) ts) = Inr ts' \<and> without_ids ts' = without_ids ts"
  using assms
proof (induction ts arbitrary: i)
  case Nil
  then show ?case by (simp add: without_ids_def)
next
  case (Cons t ts)
  then obtain ts' where "from_dicts e (Suc i) (map (to_dict e True) ts) = Inr ts'"
    and "without_ids ts' = without_ids ts"
    by fastforce
  moreover have "from_dict e i (to_dict e True t) = Inr (t\<lparr>uid := reloaded_uid e i t\<rparr>)"
    using Cons.prems by (simp add: from_dict_to_dict)
  ultimately show ?case by (simp add: without_ids_def)
qed

lemma ensure_history_default:
  "ensure_history e st p = Inr (st', h) \<Longrightarrow> default_project_id st' = default_project_id st"
  by (auto simp: ensure_history_def Let_def split: option.splits sum.splits if_splits)

lemma resolve_project_id_cong:
  "default_project_id st' = default_project_id st \<Longrightarrow>
     resolve_project_id st' p = resolve_project_id st p"
  by (cases p) (simp_all add: resolve_project_id_def)

lemma ensure_history_known:
  "project_histories st p = Some h \<Longrightarrow> \<exists>st'. ensure_history e st p = Inr (st', h)"
  by (simp add: ensure_history_def Let_def)

lemma import_session_loaded:
  assumes "files st path = Some (SessionFile ds meta)" and "from_dicts e 0 ds = Inr ts"
  shows "\<exists>st'. import_session e st path target = Inr st'
           \<and> default_project_id st' = default_project_id st
           \<and> project_histories st' (resolve_project_id st target) = Some ts"
  using assms
  by (simp add: import_session_def load_thoughts_from_file_def save_session_def Let_def)

lemma export_session_written:
  assumes "ensure_history e st (resolve_project_id st source) = Inr (st0, h)"
  shows "\<exists>st1 meta. export_session e st path source = Inr st1
           \<and> default_project_id st1 = default_project_id st
           \<and> files st1 path = Some (SessionFile (map (to_dict e True) h) meta)"
  using assms ensure_history_default [OF assms]
  by (simp add: export_session_def save_thoughts_to_file_def
        prepare_thoughts_for_serialization_def Let_def)

lemma example_store_history:
  "get_all_thoughts example_env example_store (Some ''alpha'')
     = Inr (example_store, example_history)"
  by (simp add: get_all_thoughts_def resolve_project_id_def ensure_history_def example_store_def
        sanitize_project_id_def re_sub_unsafe_def strip_def isspace_def allowed_char_def Let_def)

lemma example_history_valid: "\<forall>t\<in>set example_history. record_invariants t"
  by (simp add: example_history_def thought_2_of_5_def example_thought_def record_invariants_def
        strip_def isspace_def)

text \<open>
  C6. For every project whose history is available and consists of constructed records,
  exporting it to a file and importing that file into any project (a fresh one included)
  succeeds, and the history of that project is then the original record sequence, in the
  original order, equal in every attribute except possibly the identifier.
\<close>

theorem export_import_round_trip:
  assumes "get_all_thoughts e st source = Inr (st0, history)"
    and "\<forall>t\<in>set history. record_invariants t"
  shows "map_sum (\<lambda>err. err) without_ids (export_then_import e st file_path source target)
           = Inr (without_ids history)"
proof -
  from assms(1) have "ensure_history e st (resolve_project_id st source) = Inr (st0, history)"
    by (simp add: get_all_thoughts_def Let_def)
  from export_session_written [OF this]
  obtain st1 meta where ex: "export_session e st file_path source = Inr st1"
    and d1: "default_project_id st1 = default_project_id st"
    and f1: "files st1 file_path = Some (SessionFile (map (to_dict e True) history) meta)"
    by blast
  from from_dicts_to_dicts [OF assms(2)]
  obtain ts where ld: "from_dicts e 0 (map (to_dict e True) history) = Inr ts"
    and same: "without_ids ts = without_ids history"
    by blast
  from import_session_loaded [OF f1 ld]
  obtain st2 where im: "import_session e st1 file_path target = Inr st2"
    and d2: "default_project_id st2 = default_project_id st1"
    and h2: "project_histories st2 (resolve_project_id st1 target) = Some ts"
    by blast
  from h2 have "project_histories st2 (resolve_project_id st2 target) = Some ts"
    by (simp add: resolve_project_id_cong [OF d2])
  from ensure_history_known [OF this]
  obtain st3 where "get_all_thoughts e st2 target = Inr (st3, ts)"
    by (auto simp: get_all_thoughts_def Let_def)
  with ex im same show ?thesis
    by (simp add: export_then_import_def)
qed

theorem export_import_round_trip_witness:
  "map_sum (\<lambda>err. err) without_ids
     (export_then_import example_env example_store ''/tmp/out.json'' (Some ''alpha'') (Some ''beta''))
     = Inr (without_ids example_history)"
  by (rule export_import_round_trip [OF example_store_history example_history_valid])


end
